theory Spec2Isabelle
  imports Main "HOL-Library.Sublist"
begin

section \<open>The VoIP SIP client\<close>

text \<open>
  A shallow embedding of the class \<open>VoipSipClient\<close> of
  \<^verbatim>\<open>static/src/js/voip_sip_client.js\<close>. The object is a record of the
  fields the methods below read and write; every method takes the client and returns the
  updated client. Calls that leave the class (SIP requests, \<open>fetch\<close>, \<open>setTimeout\<close>)
  are appended to the field \<open>trace\<close>, which is the only field that is not a field of
  the JavaScript object. What the environment answers (a response, a rejection, the
  clock) is an argument of the function that consumes it. An \<open>async\<close> method is cut at
  its \<open>await\<close>, one function for the part that runs before the promise settles and
  one for the continuation; the callbacks of a request delegate are functions of their
  own, applied to the client as it is when the response arrives.
\<close>

subsection \<open>Values\<close>

text \<open>
  Thrown values: a \<open>TypeError\<close> raised by the engine, \<open>new Error(message)\<close>, and an
  error object with another \<open>name\<close> (a \<open>DOMException\<close> such as \<open>NotAllowedError\<close>) and
  its message.
\<close>

datatype js_error = TypeError | Error string | NamedError string string

datatype 'a outcome = Return 'a | Throw js_error


text \<open>An \<open>HTMLAudioElement\<close> as far as the tone methods use it.\<close>

record audio =
  paused :: bool
  currentTime :: nat

text \<open>\<open>MediaStreamTrack.kind\<close> is one of the two strings \<open>"audio"\<close> and \<open>"video"\<close>.\<close>

datatype track_kind = AudioKind | VideoKind

record track =
  kind :: track_kind
  enabled :: bool
  IsMixedTrack :: bool

text \<open>
  Tracks are shared objects: a sender, a receiver and \<open>data.AudioSourceTrack\<close> may
  hold the same track. They live in a store indexed by a track identifier, and
  senders and receivers hold identifiers (\<open>None\<close> for a \<open>null\<close> track).
\<close>

type_synonym track_id = nat

record peer_connection =
  receivers :: "track_id option list"
  senders :: "track_id option list"

text \<open>\<open>session.sessionDescriptionHandler\<close>; its \<open>peerConnection\<close> may be missing.\<close>

record session_description_handler =
  peerConnection :: "peer_connection option"

record hold_event =
  event :: string
  eventTime :: nat

record transfer_accept =
  complete :: "bool option"
  accept_eventTime :: "nat option"
  accept_disposition :: string

datatype transfer_type = Blind | Attended

record transfer_record =
  transfer_type :: transfer_type
  to :: string
  transferTime :: nat
  disposition :: string
  dispositionTime :: nat
  accept :: transfer_accept

text \<open>
  \<open>session.data\<close>, the ad hoc object the methods attach to a session. \<open>hold\<close> and
  \<open>transfer\<close> are \<open>undefined\<close> (\<open>None\<close>) until the first hold or transfer.
\<close>

record session_data =
  AudioSourceTrack :: "track_id option"
  hold :: "hold_event list option"
  transfer :: "transfer_record list option"
  terminateby :: "string option"
  reasonCode :: "nat option"
  reasonText :: "string option"
  childsession :: "string option"

text \<open>The states of a SIP.js session (\<open>SIP.SessionState\<close>).\<close>

datatype session_state = Initial | Establishing | Established | Terminating | Terminated

text \<open>
  A SIP.js session with the properties the client reads and writes. \<open>isOnHold\<close> is a
  property the client adds: it is \<open>undefined\<close> (\<open>None\<close>) on a session that no hold or
  resume has touched, since nothing initialises it when a session is created, and the
  methods compare it with \<open>=== true\<close> and \<open>=== false\<close>.
  \<open>reInviteHold\<close> is \<open>sessionDescriptionHandlerOptionsReInvite\<close>: \<open>None\<close> when the
  options object is missing, otherwise the value of its \<open>hold\<close> property.
\<close>

record session =
  state :: session_state
  isOnHold :: "bool option"
  reInviteHold :: "bool option option"
  sessionDescriptionHandler :: "session_description_handler option"
  data :: "session_data option"

text \<open>A recorded chunk (a \<open>Blob\<close>) is its bytes; \<open>size\<close> is their number.\<close>

type_synonym blob = "nat list"

datatype recorder_state = Inactive | Recording | Paused

text \<open>Calls that leave the class, in the order they are made.\<close>

datatype effect =
    SetTimeoutRetry string nat
  | PostRecording "nat option" int "blob list"
  | SipInvite string
  | SipReInvite "bool option"
  | SipRefer string
  | SipReferSession string
  | SipBye

record client =
  config_host :: string
  config_realm :: string
  userAgent :: bool
  isRegistered :: bool
  currentSession :: "session option"
  localStream :: "track_id list option"
  tracks :: "track_id \<Rightarrow> track"
  mediaRecorder :: "recorder_state option"
  recordedChunks :: "blob list"
  recordingSaved :: bool
  recordingSaving :: bool
  odooCallId :: "nat option"
  ringbackTone :: audio
  busyTone :: audio
  ringTone :: audio
  callState :: string
  callStartTime :: "int option"
  callEndTime :: "int option"
  retryCount :: nat
  maxRetries :: nat
  retryDelay :: nat
  trace :: "effect list"

subsection \<open>The constructor\<close>

text \<open>
  The fields as the constructor leaves them. \<open>initCallTones\<close> creates the three
  \<open>Audio\<close> elements; a new element is paused at position 0. The recording flags, the
  call identifier and the end time are not assigned (\<open>undefined\<close>); the two flags are
  only ever tested for truthiness, so \<open>undefined\<close> is \<open>False\<close> here. The
  configuration is the constructor's argument; \<open>config_host\<close> is
  \<open>config.server.host\<close>, and \<open>config_realm\<close> is \<open>config.server.realm\<close>, empty when
  the configuration has none.
\<close>

definition new_Audio :: audio where
  "new_Audio = \<lparr>paused = True, currentTime = 0\<rparr>"

definition constructor :: "string \<Rightarrow> client" where
  "constructor host =
     \<lparr>config_host = host,
      config_realm = [],
      userAgent = False,
      isRegistered = False,
      currentSession = None,
      localStream = None,
      tracks = (\<lambda>_. \<lparr>kind = AudioKind, enabled = True, IsMixedTrack = False\<rparr>),
      mediaRecorder = None,
      recordedChunks = [],
      recordingSaved = False,
      recordingSaving = False,
      odooCallId = None,
      ringbackTone = new_Audio,
      busyTone = new_Audio,
      ringTone = new_Audio,
      callState = ''idle'',
      callStartTime = None,
      callEndTime = None,
      retryCount = 0,
      maxRetries = 3,
      retryDelay = 1000,
      trace = []\<rparr>"

subsection \<open>Retry policy\<close>

text \<open>
  \<open>scheduleRetry(context)\<close>: below the bound the counter is incremented and
  \<open>retry(context)\<close> is scheduled after \<open>retryDelay * Math.pow(2, retryCount - 1)\<close>
  milliseconds (with the incremented counter); at the bound the counter is reset and
  nothing is scheduled.
\<close>

definition scheduleRetry :: "client \<Rightarrow> string \<Rightarrow> client" where
  "scheduleRetry c context =
     (if retryCount c < maxRetries c then
        let c1 = c\<lparr>retryCount := retryCount c + 1\<rparr>;
            delay = retryDelay c1 * 2 ^ (retryCount c1 - 1)
        in c1\<lparr>trace := trace c1 @ [SetTimeoutRetry context delay]\<rparr>
      else c\<lparr>retryCount := 0\<rparr>)"

subsection \<open>Indicator tones\<close>

text \<open>
  The constructor creates the three \<open>Audio\<close> elements (\<open>initCallTones\<close>) and nothing
  assigns the three fields afterwards, so \<open>pause()\<close> and the assignment to
  \<open>currentTime\<close> inside the \<open>try\<close> of \<open>stopAllTones\<close> always run to the end.
\<close>

definition pause_reset :: "audio \<Rightarrow> audio" where
  "pause_reset a = a\<lparr>paused := True, currentTime := 0\<rparr>"

definition stopAllTones :: "client \<Rightarrow> client" where
  "stopAllTones c =
     c\<lparr>ringbackTone := pause_reset (ringbackTone c),
       busyTone := pause_reset (busyTone c),
       ringTone := pause_reset (ringTone c)\<rparr>"

text \<open>
  \<open>tone.play()\<close>: playback starts (\<open>paused\<close> becomes false) when the browser allows
  it; otherwise the promise is rejected, the rejection is swallowed by \<open>.catch\<close> and
  the element stays paused. The flag \<open>allowed\<close> is the browser's answer.
\<close>

definition play :: "bool \<Rightarrow> audio \<Rightarrow> audio" where
  "play allowed a = (if allowed then a\<lparr>paused := False\<rparr> else a)"

definition playRingbackTone :: "bool \<Rightarrow> client \<Rightarrow> client" where
  "playRingbackTone allowed c =
     (let c1 = stopAllTones c in c1\<lparr>ringbackTone := play allowed (ringbackTone c1)\<rparr>)"

definition playBusyTone :: "bool \<Rightarrow> client \<Rightarrow> client" where
  "playBusyTone allowed c =
     (let c1 = stopAllTones c in c1\<lparr>busyTone := play allowed (busyTone c1)\<rparr>)"

definition playRingTone :: "bool \<Rightarrow> client \<Rightarrow> client" where
  "playRingTone allowed c =
     (let c1 = stopAllTones c in c1\<lparr>ringTone := play allowed (ringTone c1)\<rparr>)"

datatype tone_op = PlayRingback bool | PlayBusy bool | PlayRing bool | StopAll

fun tone_step :: "client \<Rightarrow> tone_op \<Rightarrow> client" where
  "tone_step c (PlayRingback allowed) = playRingbackTone allowed c"
| "tone_step c (PlayBusy allowed) = playBusyTone allowed c"
| "tone_step c (PlayRing allowed) = playRingTone allowed c"
| "tone_step c StopAll = stopAllTones c"

definition tone_run :: "client \<Rightarrow> tone_op list \<Rightarrow> client" where
  "tone_run c ops = foldl tone_step c ops"

definition playing :: "audio \<Rightarrow> bool" where
  "playing a = (\<not> paused a)"

definition tones_playing :: "client \<Rightarrow> nat" where
  "tones_playing c = length (filter playing [ringbackTone c, busyTone c, ringTone c])"

subsection \<open>Recording\<close>

text \<open>
  The class declares \<open>startRecording\<close> twice; the later declaration
  (\<open>startRecording(stream)\<close>) replaces the earlier one and is the method modelled.
  The stream is \<open>None\<close> when the caller passes none (the systray does), otherwise the
  number of its tracks that are live and enabled. Every exception is caught and logged
  inside the method, so it returns the client in all cases; what was assigned before
  the exception stays assigned.
\<close>

datatype recorder_env = CreateFails | StartFails | Starts

definition startRecording :: "client \<Rightarrow> nat option \<Rightarrow> recorder_env \<Rightarrow> client" where
  "startRecording c stream env =
     (if mediaRecorder c \<noteq> None \<and> mediaRecorder c \<noteq> Some Inactive then c
      else case stream of
        None \<Rightarrow> c
      | Some activeTracks \<Rightarrow>
          (let c1 = c\<lparr>recordedChunks := [], recordingSaved := False, recordingSaving := False\<rparr>
           in if activeTracks = 0 then c1
              else (case env of
                      CreateFails \<Rightarrow> c1
                    | StartFails \<Rightarrow> c1\<lparr>mediaRecorder := Some Inactive\<rparr>
                    | Starts \<Rightarrow> c1\<lparr>mediaRecorder := Some Recording\<rparr>)))"

text \<open>\<open>mediaRecorder.ondataavailable\<close>: a chunk is kept only if it is not empty.\<close>

definition ondataavailable :: "client \<Rightarrow> blob \<Rightarrow> client" where
  "ondataavailable c chunk =
     (if length chunk > 0 then c\<lparr>recordedChunks := recordedChunks c @ [chunk]\<rparr> else c)"

text \<open>\<open>getCallDuration()\<close>; \<open>now\<close> is \<open>Date.now()\<close>, in milliseconds.\<close>

definition getCallDuration :: "client \<Rightarrow> int \<Rightarrow> int" where
  "getCallDuration c now =
     (case callStartTime c of
        None \<Rightarrow> 0
      | Some t \<Rightarrow> if t \<noteq> 0 then (now - t) div 1000 else 0)"

text \<open>
  \<open>saveRecording()\<close> up to its \<open>await fetch(...)\<close>. The result is the client and
  whether a request was sent and is awaited. Both early \<open>return\<close>s are inside the
  \<open>try\<close>, so the \<open>finally\<close> block runs for them as well and assigns
  \<open>recordingSaving = false\<close>.
\<close>

definition saveRecording_start :: "client \<Rightarrow> int \<Rightarrow> client \<times> bool" where
  "saveRecording_start c now =
     (if recordingSaved c \<or> recordingSaving c then (c\<lparr>recordingSaving := False\<rparr>, False)
      else if length (recordedChunks c) = 0 then (c\<lparr>recordingSaving := False\<rparr>, False)
      else
        let c1 = c\<lparr>recordingSaving := True\<rparr>;
            d = getCallDuration c1 now;
            totalSize = foldl (\<lambda>sum chunk. sum + int (length chunk)) 0 (recordedChunks c1);
            duration = (if d = 0 \<and> length (recordedChunks c1) > 0
                        then max 1 (totalSize div 10000) else d);
            callId = (case odooCallId c1 of None \<Rightarrow> None
                      | Some i \<Rightarrow> if i = 0 then None else Some i)
        in (c1\<lparr>trace := trace c1 @ [PostRecording callId duration (recordedChunks c1)]\<rparr>, True))"

text \<open>
  What \<open>fetch\<close> settles with: a rejection (network error), a response that is not OK,
  or an OK response whose body parses as JSON or does not.
\<close>

datatype fetch_result = NetworkError | HttpError | HttpOk bool

text \<open>
  \<open>saveRecording()\<close> after the \<open>await\<close>: an OK response with a JSON body sets
  \<open>recordingSaved\<close>; everything else throws into the empty \<open>catch\<close>; the
  \<open>finally\<close> block clears \<open>recordingSaving\<close>.
\<close>

definition saveRecording_finish :: "client \<Rightarrow> fetch_result \<Rightarrow> client" where
  "saveRecording_finish c r =
     (let c1 = (case r of HttpOk True \<Rightarrow> c\<lparr>recordingSaved := True\<rparr> | _ \<Rightarrow> c)
      in c1\<lparr>recordingSaving := False\<rparr>)"

text \<open>
  The \<open>then\<close> and \<open>catch\<close> callbacks that the \<open>onstop\<close> handler chains to
  \<open>saveRecording()\<close> make the same four assignments. (The \<open>finally\<close> callback stops
  the tracks of \<open>recordingStream\<close>, which no modelled method reads.)
\<close>

definition onstop_then :: "client \<Rightarrow> client" where
  "onstop_then c =
     c\<lparr>callStartTime := None, callEndTime := None,
       recordingSaved := False, recordingSaving := False\<rparr>"

text \<open>
  The recorder and the requests in flight. \<open>pending\<close> lists the requests sent and not
  yet answered, oldest first, each with whether \<open>saveRecording\<close> was called by the
  \<open>onstop\<close> handler (then \<open>onstop_then\<close> follows its completion); \<open>stopping\<close>
  tells that \<open>mediaRecorder.stop()\<close> was called and the \<open>stop\<close> event is still to
  be delivered; \<open>uploaded\<close> counts the requests the server answered with OK.
\<close>

record recording_world =
  cl :: client
  pending :: "bool list"
  stopping :: bool
  uploaded :: nat

text \<open>
  \<open>stopRecording()\<close>. An active recorder is stopped (its state becomes inactive at
  once, the \<open>stop\<close> event comes later). \<open>stop()\<close> throws only on an inactive
  recorder, which the guard excludes, so the \<open>catch\<close> around it is not reached.
  With no active recorder and chunks in the buffer, \<open>saveRecording()\<close> is called
  directly and not awaited.
\<close>

definition stopRecording :: "recording_world \<Rightarrow> int \<Rightarrow> recording_world" where
  "stopRecording w now =
     (let c = cl w in
      if mediaRecorder c \<noteq> None \<and> mediaRecorder c \<noteq> Some Inactive
      then w\<lparr>cl := c\<lparr>mediaRecorder := Some Inactive\<rparr>, stopping := True\<rparr>
      else if length (recordedChunks c) > 0
      then (case saveRecording_start c now of
              (c1, sent) \<Rightarrow> w\<lparr>cl := c1, pending := pending w @ (if sent then [False] else [])\<rparr>)
      else w)"

text \<open>
  The \<open>mediaRecorder.onstop\<close> handler. With chunks in the buffer it calls
  \<open>saveRecording()\<close>; when that returns without awaiting a request the chained
  callback runs next.
\<close>

definition onstop :: "recording_world \<Rightarrow> int \<Rightarrow> recording_world" where
  "onstop w now =
     (let c = cl w; w1 = w\<lparr>stopping := False\<rparr> in
      if length (recordedChunks c) > 0
      then (case saveRecording_start c now of
              (c1, sent) \<Rightarrow>
                if sent then w1\<lparr>cl := c1, pending := pending w @ [True]\<rparr>
                else w1\<lparr>cl := onstop_then c1\<rparr>)
      else w1)"

text \<open>The oldest request in flight is answered.\<close>

definition fetch_settles :: "recording_world \<Rightarrow> fetch_result \<Rightarrow> recording_world" where
  "fetch_settles w r =
     (case pending w of
        [] \<Rightarrow> w
      | from_onstop # rest \<Rightarrow>
          let c1 = saveRecording_finish (cl w) r;
              c2 = (if from_onstop then onstop_then c1 else c1)
          in w\<lparr>cl := c2, pending := rest,
               uploaded := uploaded w + (case r of HttpOk _ \<Rightarrow> 1 | _ \<Rightarrow> 0)\<rparr>)"

text \<open>
  The events of one recording: the call is established and recording starts, the
  recorder delivers a chunk, \<open>stopRecording()\<close> is called (by the systray's stop
  button, by \<open>hangup()\<close> or by \<open>onCallTerminated\<close>), the browser delivers the
  \<open>stop\<close> event, a request is answered.
\<close>

datatype recording_event =
    StartRecording "nat option" recorder_env
  | DataAvailable blob
  | StopRecording int
  | StopEvent int
  | FetchSettles fetch_result

fun recording_step :: "recording_world \<Rightarrow> recording_event \<Rightarrow> recording_world" where
  "recording_step w (StartRecording stream env) = w\<lparr>cl := startRecording (cl w) stream env\<rparr>"
| "recording_step w (DataAvailable chunk) = w\<lparr>cl := ondataavailable (cl w) chunk\<rparr>"
| "recording_step w (StopRecording now) = stopRecording w now"
| "recording_step w (StopEvent now) = (if stopping w then onstop w now else w)"
| "recording_step w (FetchSettles r) = fetch_settles w r"

definition recording_run :: "client \<Rightarrow> recording_event list \<Rightarrow> recording_world" where
  "recording_run c evs =
     foldl recording_step \<lparr>cl = c, pending = [], stopping = False, uploaded = 0\<rparr> evs"

subsection \<open>Hold and resume\<close>

text \<open>What the promise of \<open>session.invite(options)\<close> settles with.\<close>

datatype invite_result = InviteResolved | InviteRejected js_error

text \<open>The \<open>catch\<close> block of \<open>holdCall\<close>: the flag is reset if a session is current.\<close>

definition holdCall_catch :: "client \<Rightarrow> js_error \<Rightarrow> client \<times> bool outcome" where
  "holdCall_catch c e =
     (case currentSession c of
        None \<Rightarrow> (c, Throw e)
      | Some s \<Rightarrow> (c\<lparr>currentSession := Some (s\<lparr>isOnHold := Some False\<rparr>)\<rparr>, Throw e))"

text \<open>
  \<open>holdCall()\<close> up to \<open>await this.currentSession.invite(options)\<close>. The second
  component is \<open>None\<close> when the re-INVITE was sent and is awaited, and the method's
  outcome when it ended before (a \<open>throw\<close> has then been through the \<open>catch\<close>).
  Assigning \<open>hold\<close> on a missing options object is a \<open>TypeError\<close>.
\<close>

definition holdCall_start :: "client \<Rightarrow> client \<times> bool outcome option" where
  "holdCall_start c =
     (case currentSession c of
        None \<Rightarrow> (case holdCall_catch c (Error ''No active call to hold'') of
                   (c1, r) \<Rightarrow> (c1, Some r))
      | Some s \<Rightarrow>
          if isOnHold s = Some True then (c, Some (Return True))
          else
            (let c1 = c\<lparr>currentSession := Some (s\<lparr>isOnHold := Some True\<rparr>)\<rparr> in
             case reInviteHold s of
               None \<Rightarrow> (case holdCall_catch c1 TypeError of (c2, r) \<Rightarrow> (c2, Some r))
             | Some _ \<Rightarrow>
                 (c1\<lparr>currentSession :=
                        Some (s\<lparr>isOnHold := Some True, reInviteHold := Some (Some True)\<rparr>),
                      trace := trace c1 @ [SipReInvite (Some True)]\<rparr>, None)))"

definition holdCall :: "client \<Rightarrow> invite_result \<Rightarrow> client \<times> bool outcome" where
  "holdCall c result =
     (case holdCall_start c of
        (c1, Some r) \<Rightarrow> (c1, r)
      | (c1, None) \<Rightarrow>
          (case result of
             InviteResolved \<Rightarrow> (c1, Return True)
           | InviteRejected e \<Rightarrow> holdCall_catch c1 e))"

text \<open>
  The two \<open>forEach\<close> loops of the \<open>onAccept\<close> callbacks. \<open>holdCall\<close> and
  \<open>resumeCall\<close> contain the same loops, one assigning \<open>false\<close> and one \<open>true\<close>;
  the assigned value is the first argument. An exception ends the loop and leaves the
  assignments made so far. Reading \<open>AudioSourceTrack\<close> of a missing \<open>data\<close> object is
  a \<open>TypeError\<close>.
\<close>

definition set_enabled :: "bool \<Rightarrow> track_id \<Rightarrow> (track_id \<Rightarrow> track) \<Rightarrow> (track_id \<Rightarrow> track)" where
  "set_enabled v i ts = ts(i := (ts i)\<lparr>enabled := v\<rparr>)"

fun receivers_forEach :: "bool \<Rightarrow> track_id option list \<Rightarrow> (track_id \<Rightarrow> track) \<Rightarrow> (track_id \<Rightarrow> track)" where
  "receivers_forEach v [] ts = ts"
| "receivers_forEach v (None # rs) ts = receivers_forEach v rs ts"
| "receivers_forEach v (Some i # rs) ts = receivers_forEach v rs (set_enabled v i ts)"

fun senders_forEach ::
  "bool \<Rightarrow> session_data option \<Rightarrow> track_id option list \<Rightarrow> (track_id \<Rightarrow> track)
     \<Rightarrow> (track_id \<Rightarrow> track) \<times> js_error option" where
  "senders_forEach v d [] ts = (ts, None)"
| "senders_forEach v d (None # ss) ts = senders_forEach v d ss ts"
| "senders_forEach v d (Some i # ss) ts =
     (case kind (ts i) of
        AudioKind \<Rightarrow>
          (if IsMixedTrack (ts i) then
             (case d of
                None \<Rightarrow> (ts, Some TypeError)
              | Some dat \<Rightarrow>
                  (let ts1 = (case AudioSourceTrack dat of
                                None \<Rightarrow> ts
                              | Some a \<Rightarrow> if kind (ts a) = AudioKind then set_enabled v a ts else ts)
                   in senders_forEach v d ss (set_enabled v i ts1)))
           else senders_forEach v d ss (set_enabled v i ts))
      | VideoKind \<Rightarrow> senders_forEach v d ss (set_enabled v i ts))"

text \<open>
  The guarded block at the head of both \<open>onAccept\<close> callbacks: with a current session
  that has a handler with a peer connection, first the receivers, then the senders.
\<close>

definition peer_tracks_forEach :: "bool \<Rightarrow> client \<Rightarrow> client \<times> js_error option" where
  "peer_tracks_forEach v c =
     (case currentSession c of
        None \<Rightarrow> (c, None)
      | Some s \<Rightarrow>
          (case sessionDescriptionHandler s of
             None \<Rightarrow> (c, None)
           | Some sdh \<Rightarrow>
               (case peerConnection sdh of
                  None \<Rightarrow> (c, None)
                | Some pc \<Rightarrow>
                    (case senders_forEach v (data s) (senders pc)
                            (receivers_forEach v (receivers pc) (tracks c)) of
                       (ts, err) \<Rightarrow> (c\<lparr>tracks := ts\<rparr>, err)))))"

definition empty_data :: session_data where
  "empty_data =
     \<lparr>AudioSourceTrack = None, hold = None, transfer = None, terminateby = None,
      reasonCode = None, reasonText = None, childsession = None\<rparr>"

text \<open>
  The tail of both \<open>onAccept\<close> callbacks: the flag is assigned (a \<open>TypeError\<close> when
  no session is current), \<open>data\<close> and \<open>data.hold\<close> are created if missing, and the
  event is logged.
\<close>

definition log_hold :: "bool \<Rightarrow> string \<Rightarrow> nat \<Rightarrow> client \<Rightarrow> client \<times> unit outcome" where
  "log_hold flag ev now c =
     (case currentSession c of
        None \<Rightarrow> (c, Throw TypeError)
      | Some s \<Rightarrow>
          (let d = (case data s of None \<Rightarrow> empty_data | Some d \<Rightarrow> d);
               h = (case hold d of None \<Rightarrow> [] | Some h \<Rightarrow> h)
           in (c\<lparr>currentSession :=
                    Some (s\<lparr>isOnHold := Some flag,
                            data := Some (d\<lparr>hold := Some (h @ [\<lparr>event = ev, eventTime = now\<rparr>])\<rparr>)\<rparr>)\<rparr>,
               Return ())))"

text \<open>\<open>holdCall\<close>'s \<open>requestDelegate.onAccept\<close>; \<open>now\<close> is the clock.\<close>

definition holdCall_onAccept :: "client \<Rightarrow> nat \<Rightarrow> client \<times> unit outcome" where
  "holdCall_onAccept c now =
     (case peer_tracks_forEach False c of
        (c1, Some e) \<Rightarrow> (c1, Throw e)
      | (c1, None) \<Rightarrow> log_hold True ''hold'' now c1)"

text \<open>\<open>holdCall\<close>'s \<open>requestDelegate.onReject\<close>.\<close>

definition holdCall_onReject :: "client \<Rightarrow> client \<times> unit outcome" where
  "holdCall_onReject c =
     (case currentSession c of
        None \<Rightarrow> (c, Throw TypeError)
      | Some s \<Rightarrow> (c\<lparr>currentSession := Some (s\<lparr>isOnHold := Some False\<rparr>)\<rparr>,
                   Throw (Error ''Failed to put call on hold'')))"

text \<open>\<open>resumeCall()\<close>, cut like \<open>holdCall()\<close>.\<close>

definition resumeCall_catch :: "client \<Rightarrow> js_error \<Rightarrow> client \<times> bool outcome" where
  "resumeCall_catch c e =
     (case currentSession c of
        None \<Rightarrow> (c, Throw e)
      | Some s \<Rightarrow> (c\<lparr>currentSession := Some (s\<lparr>isOnHold := Some True\<rparr>)\<rparr>, Throw e))"

definition resumeCall_start :: "client \<Rightarrow> client \<times> bool outcome option" where
  "resumeCall_start c =
     (case currentSession c of
        None \<Rightarrow> (case resumeCall_catch c (Error ''No active call to resume'') of
                   (c1, r) \<Rightarrow> (c1, Some r))
      | Some s \<Rightarrow>
          if isOnHold s = Some False then (c, Some (Return True))
          else
            (let c1 = c\<lparr>currentSession := Some (s\<lparr>isOnHold := Some False\<rparr>)\<rparr> in
             case reInviteHold s of
               None \<Rightarrow> (case resumeCall_catch c1 TypeError of (c2, r) \<Rightarrow> (c2, Some r))
             | Some _ \<Rightarrow>
                 (c1\<lparr>currentSession :=
                        Some (s\<lparr>isOnHold := Some False, reInviteHold := Some (Some False)\<rparr>),
                      trace := trace c1 @ [SipReInvite (Some False)]\<rparr>, None)))"

definition resumeCall :: "client \<Rightarrow> invite_result \<Rightarrow> client \<times> bool outcome" where
  "resumeCall c result =
     (case resumeCall_start c of
        (c1, Some r) \<Rightarrow> (c1, r)
      | (c1, None) \<Rightarrow>
          (case result of
             InviteResolved \<Rightarrow> (c1, Return True)
           | InviteRejected e \<Rightarrow> resumeCall_catch c1 e))"

definition resumeCall_onAccept :: "client \<Rightarrow> nat \<Rightarrow> client \<times> unit outcome" where
  "resumeCall_onAccept c now =
     (case peer_tracks_forEach True c of
        (c1, Some e) \<Rightarrow> (c1, Throw e)
      | (c1, None) \<Rightarrow> log_hold False ''unhold'' now c1)"

definition resumeCall_onReject :: "client \<Rightarrow> client \<times> unit outcome" where
  "resumeCall_onReject c =
     (case currentSession c of
        None \<Rightarrow> (c, Throw TypeError)
      | Some s \<Rightarrow> (c\<lparr>currentSession := Some (s\<lparr>isOnHold := Some True\<rparr>)\<rparr>,
                   Throw (Error ''Failed to take call off hold'')))"

text \<open>
  \<open>muteMicrophone()\<close>: the audio tracks of \<open>localStream\<close> are disabled.
  \<open>onCallEstablished\<close> builds \<open>localStream\<close> from the tracks of the audio senders, so
  these are the tracks the peer connection sends.
\<close>

definition muteMicrophone :: "client \<Rightarrow> client \<times> bool" where
  "muteMicrophone c =
     (case localStream c of
        None \<Rightarrow> (c, False)
      | Some ids \<Rightarrow>
          (c\<lparr>tracks := foldl (\<lambda>ts i. if kind (ts i) = AudioKind then set_enabled False i ts else ts)
               (tracks c) ids\<rparr>, True))"

text \<open>
  A hold whose re-INVITE is accepted at \<open>t1\<close>, then a resume whose re-INVITE is
  accepted at \<open>t2\<close>: the client after the four steps.
\<close>

definition hold_then_resume :: "client \<Rightarrow> nat \<Rightarrow> nat \<Rightarrow> client" where
  "hold_then_resume c t1 t2 =
     fst (resumeCall_onAccept
       (fst (resumeCall (fst (holdCall_onAccept (fst (holdCall_start c)) t1)) InviteResolved)) t2)"

subsection \<open>The end of a session\<close>

text \<open>
  The client with its recorder and requests in flight, and the sessions that
  \<open>onCallTerminated\<close> has been called with, oldest first, each as it was at the call.
  A session object outlives its being the current session (SIP.js, the listeners and
  the user interface keep it); \<open>terminated_sessions\<close> is where the embedding keeps it.
\<close>

record call_world =
  rec_world :: recording_world
  terminated_sessions :: "session list"

definition client_of :: "call_world \<Rightarrow> client" where
  "client_of w = cl (rec_world w)"

definition with_client :: "call_world \<Rightarrow> client \<Rightarrow> call_world" where
  "with_client w c = w\<lparr>rec_world := (rec_world w)\<lparr>cl := c\<rparr>\<rparr>"

text \<open>A client with no request in flight and no session ended yet.\<close>

definition call_world_of :: "client \<Rightarrow> call_world" where
  "call_world_of c =
     \<lparr>rec_world = \<lparr>cl = c, pending = [], stopping = False, uploaded = 0\<rparr>,
      terminated_sessions = []\<rparr>"

text \<open>
  \<open>onCallTerminated(session)\<close>; \<open>now\<close> is \<open>Date.now()\<close>. The end time is stored, the
  tones are stopped, \<open>stopRecording()\<close> is called and the session reference is reset.
  (The calls to \<open>voipService\<close> are remote procedure calls and the callback of the user
  interface, which assign no field of the client; the playback element is not a field
  of the record; the timer that stops the tracks of \<open>localStream\<close> a second later is
  a later event.)
\<close>

definition onCallTerminated :: "call_world \<Rightarrow> session \<Rightarrow> int \<Rightarrow> call_world" where
  "onCallTerminated w session now =
     (let r = rec_world w;
          r1 = stopRecording (r\<lparr>cl := stopAllTones ((cl r)\<lparr>callEndTime := Some now\<rparr>)\<rparr>) now;
          r2 = r1\<lparr>cl := (cl r1)\<lparr>currentSession := None\<rparr>\<rparr>
      in w\<lparr>rec_world := r2, terminated_sessions := terminated_sessions w @ [session]\<rparr>)"

text \<open>
  The listener that \<open>setupSessionHandlers(session)\<close> adds to \<open>session.stateChange\<close>
  calls \<open>onCallTerminated(session)\<close> when the state becomes \<open>Terminated\<close>. Every call
  of the method adds one more listener: \<open>makeCall\<close> calls it twice on its \<open>Inviter\<close>
  (before and after the INVITE is sent), \<open>handleIncomingCall\<close> once on the
  invitation. SIP.js calls the listeners one after the other, inside the call that
  changes the state.
\<close>

datatype direction = Outgoing | Incoming

definition listeners :: "direction \<Rightarrow> nat" where
  "listeners d = (case d of Outgoing \<Rightarrow> 2 | Incoming \<Rightarrow> 1)"

fun notify_terminated :: "nat \<Rightarrow> call_world \<Rightarrow> session \<Rightarrow> int \<Rightarrow> call_world" where
  "notify_terminated 0 w session now = w"
| "notify_terminated (Suc n) w session now =
     notify_terminated n (onCallTerminated w session now) session now"

text \<open>
  \<open>this.currentSession.bye().catch(...)\<close>, the last statement of the \<open>onAccept\<close>
  callback of a REFER. \<open>SipBye\<close> stands for the call. What \<open>bye()\<close> does is SIP.js's
  part and the argument \<open>result\<close>: on an established session with a confirmed dialog
  it sends the BYE and makes the session \<open>Terminated\<close> before it returns
  (\<open>ByeTerminated\<close>), which runs the listeners; otherwise it returns a promise without
  a change of state (a rejected one on a session that is not established, which the
  \<open>catch\<close> swallows), or it throws. \<open>d\<close> tells how the session came to the client.
\<close>

datatype bye_result = ByeTerminated | ByeReturned | ByeThrew js_error

definition session_bye ::
  "call_world \<Rightarrow> direction \<Rightarrow> bye_result \<Rightarrow> int \<Rightarrow> call_world \<times> unit outcome" where
  "session_bye w d result now =
     (case currentSession (client_of w) of
        None \<Rightarrow> (w, Throw TypeError)
      | Some s \<Rightarrow>
          (let w1 = with_client w ((client_of w)\<lparr>trace := trace (client_of w) @ [SipBye]\<rparr>) in
           case result of
             ByeTerminated \<Rightarrow>
               (notify_terminated (listeners d) w1 (s\<lparr>state := Terminated\<rparr>) now, Return ())
           | ByeReturned \<Rightarrow> (w1, Return ())
           | ByeThrew e \<Rightarrow> (w1, Throw e)))"

subsection \<open>Outbound calls\<close>












subsection \<open>Transfer\<close>

text \<open>\<open>extension.replace(/#/g, "%23")\<close>.\<close>

definition replace_hash :: "string \<Rightarrow> string" where
  "replace_hash extension = concat (map (\<lambda>ch. if ch = CHR ''#'' then ''%23'' else [ch]) extension)"

text \<open>The record that \<open>transferCall\<close> and \<open>attendedTransfer\<close> push.\<close>

definition new_transfer :: "transfer_type \<Rightarrow> string \<Rightarrow> string \<Rightarrow> nat \<Rightarrow> transfer_record" where
  "new_transfer ty extension disp now =
     \<lparr>transfer_type = ty, to = extension, transferTime = now, disposition = disp,
      dispositionTime = now,
      accept = \<lparr>complete = None, accept_eventTime = None, accept_disposition = []\<rparr>\<rparr>"

text \<open>The transfer sequence of the current session; empty while there is none.\<close>

definition transfers :: "client \<Rightarrow> transfer_record list" where
  "transfers c =
     (case currentSession c of
        None \<Rightarrow> []
      | Some s \<Rightarrow>
          (case data s of
             None \<Rightarrow> []
           | Some d \<Rightarrow> (case transfer d of None \<Rightarrow> [] | Some ts \<Rightarrow> ts)))"

text \<open>The transfer sequence that a session object carries.\<close>

definition session_transfers :: "session \<Rightarrow> transfer_record list" where
  "session_transfers s =
     (case data s of
        None \<Rightarrow> []
      | Some d \<Rightarrow> (case transfer d of None \<Rightarrow> [] | Some ts \<Rightarrow> ts))"

text \<open>
  \<open>transferCall(extension)\<close>; the extension is \<open>None\<close> when the caller passes
  \<open>undefined\<close> or \<open>null\<close>, and calling \<open>replace\<close> on it is then a \<open>TypeError\<close>.
  \<open>SipRefer target\<close> stands for the call
  \<open>session.refer(SIP.UserAgent.makeURI(target), transferOptions)\<close>; what SIP.js does
  with the target is not part of the class, so the call's immediate result is an
  argument: \<open>None\<close> when it returns its promise, \<open>Some e\<close> when it throws \<open>e\<close>. The
  \<open>catch\<close> block rethrows.
\<close>

definition transferCall ::
  "client \<Rightarrow> string option \<Rightarrow> nat \<Rightarrow> js_error option \<Rightarrow> client \<times> bool outcome" where
  "transferCall c extension now referThrows =
     (case currentSession c of
        None \<Rightarrow> (c, Throw (Error ''No active call to transfer''))
      | Some s \<Rightarrow>
          if state s \<noteq> Established
          then (c, Throw (Error ''Call must be established to transfer''))
          else
            (let d = (case data s of None \<Rightarrow> empty_data | Some d \<Rightarrow> d) in
             case extension of
               None \<Rightarrow> (c\<lparr>currentSession := Some (s\<lparr>data := Some d\<rparr>)\<rparr>, Throw TypeError)
             | Some ext \<Rightarrow>
                 (let transferTarget = ''sip:'' @ replace_hash ext @ ''@'' @ config_host c;
                      ts = (case transfer d of None \<Rightarrow> [] | Some ts \<Rightarrow> ts);
                      d1 = d\<lparr>transfer := Some (ts @ [new_transfer Blind ext ''refer'' now])\<rparr>
                  in (c\<lparr>currentSession := Some (s\<lparr>data := Some d1\<rparr>),
                        trace := trace c @ [SipRefer transferTarget]\<rparr>,
                      case referThrows of None \<Rightarrow> Return True | Some e \<Rightarrow> Throw e))))"

text \<open>
  The assignments to \<open>data.transfer[transferId].accept\<close> that both callbacks of
  \<open>transferCall\<close> make. Reading \<open>accept\<close> of a missing element is a \<open>TypeError\<close>.
\<close>

definition set_accept ::
  "bool \<Rightarrow> string \<Rightarrow> nat \<Rightarrow> nat \<Rightarrow> session_data \<Rightarrow> session_data option" where
  "set_accept done phrase now transferId d =
     (case transfer d of
        None \<Rightarrow> None
      | Some ts \<Rightarrow>
          if transferId < length ts
          then Some (d\<lparr>transfer := Some (ts[transferId := (ts ! transferId)
                 \<lparr>accept := \<lparr>complete = Some done, accept_eventTime = Some now,
                             accept_disposition = phrase\<rparr>\<rparr>])\<rparr>)
          else None)"

text \<open>
  \<open>transferCall\<close>'s \<open>requestDelegate.onAccept\<close>, for the \<open>transferId\<close> its closure
  holds; \<open>phrase\<close> is \<open>sip.message.reasonPhrase\<close>. The callbacks read
  \<open>this.currentSession\<close> when they run. First the assignments to the session's
  \<open>data\<close>, then \<open>bye()\<close> on the session.
\<close>

definition transferCall_onAccept_assign ::
  "client \<Rightarrow> nat \<Rightarrow> string \<Rightarrow> nat \<Rightarrow> client \<times> unit outcome" where
  "transferCall_onAccept_assign c transferId phrase now =
     (case currentSession c of
        None \<Rightarrow> (c, Throw TypeError)
      | Some s \<Rightarrow>
          (case data s of
             None \<Rightarrow> (c, Throw TypeError)
           | Some d \<Rightarrow>
               (let d1 = d\<lparr>terminateby := Some ''us'', reasonCode := Some 202,
                            reasonText := Some ''Transfer''\<rparr>
                in case set_accept True phrase now transferId d1 of
                     None \<Rightarrow> (c\<lparr>currentSession := Some (s\<lparr>data := Some d1\<rparr>)\<rparr>, Throw TypeError)
                   | Some d2 \<Rightarrow> (c\<lparr>currentSession := Some (s\<lparr>data := Some d2\<rparr>)\<rparr>, Return ()))))"

definition transferCall_onAccept ::
  "call_world \<Rightarrow> nat \<Rightarrow> string \<Rightarrow> nat \<Rightarrow> direction \<Rightarrow> bye_result
     \<Rightarrow> call_world \<times> unit outcome" where
  "transferCall_onAccept w transferId phrase now d result =
     (case transferCall_onAccept_assign (client_of w) transferId phrase now of
        (c1, Throw e) \<Rightarrow> (with_client w c1, Throw e)
      | (c1, Return u) \<Rightarrow> session_bye (with_client w c1) d result (int now))"

text \<open>\<open>transferCall\<close>'s \<open>requestDelegate.onReject\<close>.\<close>

definition transferCall_onReject :: "client \<Rightarrow> nat \<Rightarrow> string \<Rightarrow> nat \<Rightarrow> client \<times> unit outcome" where
  "transferCall_onReject c transferId phrase now =
     (case currentSession c of
        None \<Rightarrow> (c, Throw TypeError)
      | Some s \<Rightarrow>
          (case data s of
             None \<Rightarrow> (c, Throw TypeError)
           | Some d \<Rightarrow>
               (case set_accept False phrase now transferId d of
                  None \<Rightarrow> (c, Throw TypeError)
                | Some d2 \<Rightarrow> (c\<lparr>currentSession := Some (s\<lparr>data := Some d2\<rparr>)\<rparr>, Return ()))))"

text \<open>
  \<open>attendedTransfer(extension)\<close>. After the record is pushed the method reads
  \<open>navigator.mediaDevices.getSupportedConstraints()\<close> and creates the consultation
  session with \<open>makeURI\<close> and \<open>new SIP.Inviter\<close>; an exception there (a \<open>TypeError\<close>
  where \<open>mediaDevices\<close> is missing) is the argument \<open>setupThrows\<close>. Then the session is
  stored in \<open>data.childsession\<close> and its INVITE is sent. The returned session is named
  by its target.
\<close>

definition attendedTransfer ::
  "client \<Rightarrow> string option \<Rightarrow> nat \<Rightarrow> js_error option \<Rightarrow> client \<times> string outcome" where
  "attendedTransfer c extension now setupThrows =
     (case currentSession c of
        None \<Rightarrow> (c, Throw (Error ''No active call to transfer''))
      | Some s \<Rightarrow>
          if state s \<noteq> Established
          then (c, Throw (Error ''Call must be established to transfer''))
          else
            (let d = (case data s of None \<Rightarrow> empty_data | Some d \<Rightarrow> d) in
             case extension of
               None \<Rightarrow> (c\<lparr>currentSession := Some (s\<lparr>data := Some d\<rparr>)\<rparr>, Throw TypeError)
             | Some ext \<Rightarrow>
                 (let transferTarget = ''sip:'' @ replace_hash ext @ ''@'' @ config_host c;
                      ts = (case transfer d of None \<Rightarrow> [] | Some ts \<Rightarrow> ts);
                      d1 = d\<lparr>transfer := Some (ts @ [new_transfer Attended ext ''invite'' now])\<rparr>
                  in case setupThrows of
                       Some e \<Rightarrow> (c\<lparr>currentSession := Some (s\<lparr>data := Some d1\<rparr>)\<rparr>, Throw e)
                     | None \<Rightarrow>
                         (c\<lparr>currentSession :=
                              Some (s\<lparr>data := Some (d1\<lparr>childsession := Some transferTarget\<rparr>)\<rparr>),
                            trace := trace c @ [SipInvite transferTarget]\<rparr>,
                          Return transferTarget))))"

text \<open>
  The callbacks of the consultation session (\<open>onTrying\<close>, \<open>onProgress\<close>, \<open>onAccept\<close>,
  \<open>onReject\<close> and the delegate's \<open>onBye\<close>) each assign \<open>disposition\<close> and
  \<open>dispositionTime\<close> of \<open>data.transfer[transferId]\<close>; the text is \<open>"trying"\<close>,
  \<open>"progress"\<close>, \<open>"accepted"\<close>, the reason phrase, or \<open>"bye"\<close>.
\<close>

definition attendedTransfer_disposition ::
  "client \<Rightarrow> nat \<Rightarrow> string \<Rightarrow> nat \<Rightarrow> client \<times> unit outcome" where
  "attendedTransfer_disposition c transferId disp now =
     (case currentSession c of
        None \<Rightarrow> (c, Throw TypeError)
      | Some s \<Rightarrow>
          (case data s of
             None \<Rightarrow> (c, Throw TypeError)
           | Some d \<Rightarrow>
               (case transfer d of
                  None \<Rightarrow> (c, Throw TypeError)
                | Some ts \<Rightarrow>
                    if transferId < length ts
                    then (c\<lparr>currentSession := Some (s\<lparr>data := Some (d\<lparr>transfer :=
                              Some (ts[transferId := (ts ! transferId)
                                \<lparr>disposition := disp, dispositionTime := now\<rparr>])\<rparr>)\<rparr>)\<rparr>,
                          Return ())
                    else (c, Throw TypeError))))"

text \<open>
  \<open>completeAttendedTransfer(newSession)\<close>. The consultation session is named by its
  target, as \<open>attendedTransfer\<close> returns it, and is \<open>None\<close> when the caller passes
  none. The state of the current session is not tested. \<open>transferId\<close> is the index of
  the record that is last in the sequence at this moment, \<open>-1\<close> for an empty
  sequence; reading \<open>length\<close> of a missing \<open>data\<close> or \<open>data.transfer\<close> is a
  \<open>TypeError\<close>. \<open>SipReferSession\<close> stands for the call
  \<open>session.refer(newSession, transferOptions)\<close>. Where the method returns \<open>true\<close> the
  result carries the \<open>transferId\<close> that the callbacks of this REFER hold.
\<close>

definition completeAttendedTransfer ::
  "client \<Rightarrow> string option \<Rightarrow> js_error option \<Rightarrow> client \<times> int outcome" where
  "completeAttendedTransfer c newSession referThrows =
     (case currentSession c of
        None \<Rightarrow> (c, Throw (Error ''No active sessions for transfer completion''))
      | Some s \<Rightarrow>
          (case newSession of
             None \<Rightarrow> (c, Throw (Error ''No active sessions for transfer completion''))
           | Some target \<Rightarrow>
               (case data s of
                  None \<Rightarrow> (c, Throw TypeError)
                | Some d \<Rightarrow>
                    (case transfer d of
                       None \<Rightarrow> (c, Throw TypeError)
                     | Some ts \<Rightarrow>
                         (c\<lparr>trace := trace c @ [SipReferSession target]\<rparr>,
                          case referThrows of
                            None \<Rightarrow> Return (int (length ts) - 1)
                          | Some e \<Rightarrow> Throw e)))))"

text \<open>
  The callbacks of that REFER. They make the assignments of \<open>transferCall\<close>'s
  callbacks (with the reason text \<open>Attended Transfer\<close>) to the record at their
  \<open>transferId\<close>; at index \<open>-1\<close> there is no element.
\<close>

definition completeAttendedTransfer_onAccept_assign ::
  "client \<Rightarrow> int \<Rightarrow> string \<Rightarrow> nat \<Rightarrow> client \<times> unit outcome" where
  "completeAttendedTransfer_onAccept_assign c transferId phrase now =
     (case currentSession c of
        None \<Rightarrow> (c, Throw TypeError)
      | Some s \<Rightarrow>
          (case data s of
             None \<Rightarrow> (c, Throw TypeError)
           | Some d \<Rightarrow>
               (let d1 = d\<lparr>terminateby := Some ''us'', reasonCode := Some 202,
                            reasonText := Some ''Attended Transfer''\<rparr>
                in case (if transferId < 0 then None
                         else set_accept True phrase now (nat transferId) d1) of
                     None \<Rightarrow> (c\<lparr>currentSession := Some (s\<lparr>data := Some d1\<rparr>)\<rparr>, Throw TypeError)
                   | Some d2 \<Rightarrow> (c\<lparr>currentSession := Some (s\<lparr>data := Some d2\<rparr>)\<rparr>, Return ()))))"

definition completeAttendedTransfer_onAccept ::
  "call_world \<Rightarrow> int \<Rightarrow> string \<Rightarrow> nat \<Rightarrow> direction \<Rightarrow> bye_result
     \<Rightarrow> call_world \<times> unit outcome" where
  "completeAttendedTransfer_onAccept w transferId phrase now d result =
     (case completeAttendedTransfer_onAccept_assign (client_of w) transferId phrase now of
        (c1, Throw e) \<Rightarrow> (with_client w c1, Throw e)
      | (c1, Return u) \<Rightarrow> session_bye (with_client w c1) d result (int now))"

definition completeAttendedTransfer_onReject ::
  "client \<Rightarrow> int \<Rightarrow> string \<Rightarrow> nat \<Rightarrow> client \<times> unit outcome" where
  "completeAttendedTransfer_onReject c transferId phrase now =
     (case currentSession c of
        None \<Rightarrow> (c, Throw TypeError)
      | Some s \<Rightarrow>
          (case data s of
             None \<Rightarrow> (c, Throw TypeError)
           | Some d \<Rightarrow>
               (case (if transferId < 0 then None
                      else set_accept False phrase now (nat transferId) d) of
                  None \<Rightarrow> (c, Throw TypeError)
                | Some d2 \<Rightarrow> (c\<lparr>currentSession := Some (s\<lparr>data := Some d2\<rparr>)\<rparr>, Return ()))))"

subsection \<open>A call to instantiate the theorems\<close>

text \<open>
  An established call as the client holds it before any hold or transfer: the session
  carries no \<open>isOnHold\<close> and no \<open>data\<close>, the re-INVITE options are the empty object,
  and the peer connection has one receiver (track 1) and one sender (track 0), whose
  track is the one of \<open>localStream\<close>.
\<close>

definition example_session :: session where
  "example_session =
     \<lparr>state = Established, isOnHold = None, reInviteHold = Some None,
      sessionDescriptionHandler =
        Some \<lparr>peerConnection = Some \<lparr>receivers = [Some 1], senders = [Some 0]\<rparr>\<rparr>,
      data = None\<rparr>"

definition example_call :: client where
  "example_call =
     (constructor ''pbx'')
       \<lparr>userAgent := True, isRegistered := True, currentSession := Some example_session,
        localStream := Some [0], callState := ''connected'', callStartTime := Some 1000, odooCallId := Some 7\<rparr>"

text \<open>The same call with the microphone muted.\<close>

definition muted_call :: client where
  "muted_call = fst (muteMicrophone example_call)"

text \<open>The same call after \<open>holdCall\<close> has sent its re-INVITE and \<open>onAccept\<close> has run.\<close>

definition held_call :: client where
  "held_call = fst (holdCall_onAccept (fst (holdCall_start example_call)) 3)"

text \<open>
  A registered client with no call, and the environment of an outbound call whose
  INVITE is sent: the promise of \<open>invite()\<close> is resolved and the \<open>Inviter\<close> is
  \<open>Establishing\<close>.
\<close>

definition registered_client :: client where
  "registered_client = (constructor ''pbx'')\<lparr>userAgent := True, isRegistered := True\<rparr>"


text \<open>
  The established call after an attended transfer to 3003 begun at time 5, a blind
  transfer to 2002 at time 6, and the rejection of that REFER at time 7: two records,
  the blind attempt's being the last.
\<close>

definition transferred_call :: client where
  "transferred_call =
     fst (transferCall_onReject
       (fst (transferCall (fst (attendedTransfer example_call (Some ''3003'') 5 None))
          (Some ''2002'') 6 None))
       1 ''Forbidden'' 7)"

section \<open>Retry with exponential backoff\<close>

text \<open>
  C9. The k-th retry is the call of \<open>scheduleRetry\<close> that finds the counter at
  \<open>k - 1\<close>. For \<open>1 \<le> k \<le> maxRetries\<close> it sets the counter to \<open>k\<close> and schedules
  exactly one timer, after \<open>retryDelay * 2 ^ (k - 1)\<close> milliseconds. Once the counter
  has reached \<open>maxRetries\<close> the call schedules nothing and resets the counter to 0.
  The constructor sets \<open>maxRetries = 3\<close> and \<open>retryDelay = 1000\<close>.
\<close>

theorem scheduleRetry_backoff:
  "(1 \<le> k \<and> k \<le> maxRetries c \<and> retryCount c = k - 1 \<longrightarrow>
      scheduleRetry c context =
        c\<lparr>retryCount := k,
          trace := trace c @ [SetTimeoutRetry context (retryDelay c * 2 ^ (k - 1))]\<rparr>) \<and>
   (maxRetries c \<le> retryCount c \<longrightarrow> scheduleRetry c context = c\<lparr>retryCount := 0\<rparr>) \<and>
   maxRetries (constructor host) = 3 \<and> retryDelay (constructor host) = 1000 \<and>
   retryCount (constructor host) = 0"
  by (auto simp: scheduleRetry_def Let_def constructor_def)

theorem scheduleRetry_backoff_witness:
  "scheduleRetry (constructor ''pbx'') ''registration'' =
     (constructor ''pbx'')\<lparr>retryCount := 1, trace := [SetTimeoutRetry ''registration'' 1000]\<rparr> \<and>
   scheduleRetry ((constructor ''pbx'')\<lparr>retryCount := 1\<rparr>) ''registration'' =
     (constructor ''pbx'')\<lparr>retryCount := 2, trace := [SetTimeoutRetry ''registration'' 2000]\<rparr> \<and>
   scheduleRetry ((constructor ''pbx'')\<lparr>retryCount := 2\<rparr>) ''registration'' =
     (constructor ''pbx'')\<lparr>retryCount := 3, trace := [SetTimeoutRetry ''registration'' 4000]\<rparr> \<and>
   scheduleRetry ((constructor ''pbx'')\<lparr>retryCount := 3\<rparr>) ''registration'' =
     (constructor ''pbx'')\<lparr>retryCount := 0\<rparr>"
  using scheduleRetry_backoff [of 1 "constructor ''pbx''" "''registration''" "''pbx''"]
    scheduleRetry_backoff [of 2 "(constructor ''pbx'')\<lparr>retryCount := 1\<rparr>" "''registration''" "''pbx''"]
    scheduleRetry_backoff [of 3 "(constructor ''pbx'')\<lparr>retryCount := 2\<rparr>" "''registration''" "''pbx''"]
    scheduleRetry_backoff [of 3 "(constructor ''pbx'')\<lparr>retryCount := 3\<rparr>" "''registration''" "''pbx''"]
  by (simp add: constructor_def)

section \<open>Indicator tones\<close>

lemma stopAllTones_silent: "tones_playing (stopAllTones c) = 0"
  by (simp add: tones_playing_def stopAllTones_def pause_reset_def playing_def)

lemma tone_step_at_most_one: "tones_playing (tone_step c x) \<le> Suc 0"
  by (cases x)
    (simp_all add: tones_playing_def stopAllTones_def pause_reset_def playing_def play_def
      playRingbackTone_def playBusyTone_def playRingTone_def Let_def)

lemma tone_run_at_most_one:
  "tones_playing c \<le> Suc 0 \<Longrightarrow> tones_playing (tone_run c ops) \<le> Suc 0"
  unfolding tone_run_def
  by (induction ops rule: rev_induct) (simp_all add: tone_step_at_most_one)

lemma constructor_silent: "tones_playing (constructor host) = 0"
  by (simp add: tones_playing_def constructor_def new_Audio_def playing_def)

text \<open>
  C10. Each of the three play methods runs \<open>stopAllTones\<close> first: after it the two
  other tones are paused at position 0, whatever the state before. Starting from the
  constructor's state, after any sequence of play and stop operations (each play
  allowed or refused by the browser) at most one of the three tones is playing; from
  any state at all, the same holds after any sequence of at least one operation.
\<close>

theorem tones_at_most_one_playing:
  "paused (busyTone (playRingbackTone a c)) \<and> currentTime (busyTone (playRingbackTone a c)) = 0 \<and>
   paused (ringTone (playRingbackTone a c)) \<and> currentTime (ringTone (playRingbackTone a c)) = 0 \<and>
   paused (ringbackTone (playBusyTone a c)) \<and> currentTime (ringbackTone (playBusyTone a c)) = 0 \<and>
   paused (ringTone (playBusyTone a c)) \<and> currentTime (ringTone (playBusyTone a c)) = 0 \<and>
   paused (ringbackTone (playRingTone a c)) \<and> currentTime (ringbackTone (playRingTone a c)) = 0 \<and>
   paused (busyTone (playRingTone a c)) \<and> currentTime (busyTone (playRingTone a c)) = 0 \<and>
   tones_playing (tone_run (constructor host) ops) \<le> 1 \<and>
   tones_playing (tone_run c (x # ops)) \<le> 1"
proof -
  have "tones_playing (tone_run (constructor host) ops) \<le> Suc 0"
    by (rule tone_run_at_most_one) (simp add: constructor_silent)
  moreover have "tones_playing (tone_run (tone_step c x) ops) \<le> Suc 0"
    by (rule tone_run_at_most_one) (rule tone_step_at_most_one)
  then have "tones_playing (tone_run c (x # ops)) \<le> Suc 0"
    by (simp add: tone_run_def)
  ultimately show ?thesis
    by (simp add: playRingbackTone_def playBusyTone_def playRingTone_def stopAllTones_def
        pause_reset_def Let_def)
qed

section \<open>Recording upload\<close>

lemma saveRecording_guard:
  "recordingSaved c \<or> recordingSaving c \<Longrightarrow>
     snd (saveRecording_start c now) = False \<and> trace (fst (saveRecording_start c now)) = trace c"
  by (auto simp: saveRecording_start_def)

text \<open>
  C1 (at most one upload of the recorded chunks succeeds per call session) does not
  hold of the code. The guard of \<open>saveRecording\<close> does return without a request
  when either flag is set (\<open>saveRecording_guard\<close>), the saving flag is set before
  the request and an OK response sets the saved flag; but the flags do not stay set.
  The \<open>then\<close> callback of the \<open>onstop\<close> handler
  assigns \<open>recordingSaved = false\<close> after the upload and leaves the chunks in the
  buffer, and the \<open>finally\<close> block of \<open>saveRecording\<close> clears \<open>recordingSaving\<close>
  also when the guard returned early. First run: recording starts, one chunk arrives,
  the stop button calls \<open>stopRecording\<close>, the \<open>stop\<close> event uploads the chunk and the
  server answers OK; when the call ends \<open>onCallTerminated\<close> calls \<open>stopRecording\<close>
  again, which uploads the same chunk a second time, again answered OK. Second run:
  while the first request is in flight, a second \<open>stopRecording\<close> (from \<open>hangup\<close>)
  returns at the guard but clears the saving flag, and a third (from
  \<open>onCallTerminated\<close>) sends a second request; both are answered OK.
\<close>

theorem saveRecording_uploads_twice:
  "uploaded (recording_run example_call
     [StartRecording (Some 1) Starts, DataAvailable [1, 2, 3], StopRecording 6000,
      StopEvent 6001, FetchSettles (HttpOk True), StopRecording 9000,
      FetchSettles (HttpOk True)]) = 2 \<and>
   trace (cl (recording_run example_call
     [StartRecording (Some 1) Starts, DataAvailable [1, 2, 3], StopRecording 6000,
      StopEvent 6001, FetchSettles (HttpOk True), StopRecording 9000,
      FetchSettles (HttpOk True)])) =
     [PostRecording (Some 7) 5 [[1, 2, 3]], PostRecording (Some 7) 1 [[1, 2, 3]]] \<and>
   uploaded (recording_run example_call
     [StartRecording (Some 1) Starts, DataAvailable [1, 2, 3], StopRecording 6000,
      StopEvent 6001, StopRecording 6002, StopRecording 6003,
      FetchSettles (HttpOk True), FetchSettles (HttpOk True)]) = 2"
  by (simp add: recording_run_def example_call_def constructor_def startRecording_def
      ondataavailable_def stopRecording_def onstop_def fetch_settles_def
      saveRecording_start_def saveRecording_finish_def onstop_then_def getCallDuration_def
      Let_def)

text \<open>
  C2. When \<open>saveRecording\<close> has sent its request and the request fails (\<open>fetch\<close>
  rejects, or the response is not OK), the continuation leaves \<open>recordedChunks\<close> as
  they were when the method was called, clears \<open>recordingSaving\<close>, and
  \<open>recordingSaved\<close> is false; a later call of \<open>saveRecording\<close> then passes the guard
  and sends the request again. The continuation alone, on any client, changes neither
  the chunks nor the saved flag.
\<close>

theorem saveRecording_failure_keeps_chunks:
  assumes "r = NetworkError \<or> r = HttpError"
  shows "recordedChunks (saveRecording_finish c1 r) = recordedChunks c1 \<and>
         recordingSaved (saveRecording_finish c1 r) = recordingSaved c1 \<and>
         \<not> recordingSaving (saveRecording_finish c1 r) \<and>
         (saveRecording_start c now = (c1, True) \<longrightarrow>
            recordedChunks (saveRecording_finish c1 r) = recordedChunks c \<and>
            \<not> recordingSaved (saveRecording_finish c1 r) \<and>
            snd (saveRecording_start (saveRecording_finish c1 r) later) = True)"
  using assms
  by (auto simp: saveRecording_start_def saveRecording_finish_def Let_def split: if_splits)

theorem saveRecording_failure_keeps_chunks_witness:
  "snd (saveRecording_start (example_call\<lparr>recordedChunks := [[1, 2, 3]]\<rparr>) 6000) = True \<and>
   recordedChunks (saveRecording_finish
       (fst (saveRecording_start (example_call\<lparr>recordedChunks := [[1, 2, 3]]\<rparr>) 6000)) HttpError)
     = [[1, 2, 3]] \<and>
   \<not> recordingSaving (saveRecording_finish
       (fst (saveRecording_start (example_call\<lparr>recordedChunks := [[1, 2, 3]]\<rparr>) 6000)) HttpError) \<and>
   \<not> recordingSaved (saveRecording_finish
       (fst (saveRecording_start (example_call\<lparr>recordedChunks := [[1, 2, 3]]\<rparr>) 6000)) HttpError) \<and>
   snd (saveRecording_start (saveRecording_finish
       (fst (saveRecording_start (example_call\<lparr>recordedChunks := [[1, 2, 3]]\<rparr>) 6000)) HttpError)
       9000) = True"
proof -
  have s': "snd (saveRecording_start (example_call\<lparr>recordedChunks := [[1, 2, 3]]\<rparr>) 6000) = True"
    by (simp add: saveRecording_start_def example_call_def constructor_def Let_def)
  then have s: "saveRecording_start (example_call\<lparr>recordedChunks := [[1, 2, 3]]\<rparr>) 6000 =
      (fst (saveRecording_start (example_call\<lparr>recordedChunks := [[1, 2, 3]]\<rparr>) 6000), True)"
    by (simp add: prod_eq_iff)
  have r: "HttpError = NetworkError \<or> HttpError = HttpError" by simp
  note T = saveRecording_failure_keeps_chunks [OF r,
      of "fst (saveRecording_start (example_call\<lparr>recordedChunks := [[1, 2, 3]]\<rparr>) 6000)"
        "example_call\<lparr>recordedChunks := [[1, 2, 3]]\<rparr>" 6000 9000]
  from T s have
    "recordedChunks (saveRecording_finish
        (fst (saveRecording_start (example_call\<lparr>recordedChunks := [[1, 2, 3]]\<rparr>) 6000)) HttpError)
       = recordedChunks (example_call\<lparr>recordedChunks := [[1, 2, 3]]\<rparr>) \<and>
     \<not> recordingSaved (saveRecording_finish
        (fst (saveRecording_start (example_call\<lparr>recordedChunks := [[1, 2, 3]]\<rparr>) 6000)) HttpError) \<and>
     snd (saveRecording_start (saveRecording_finish
        (fst (saveRecording_start (example_call\<lparr>recordedChunks := [[1, 2, 3]]\<rparr>) 6000)) HttpError)
        9000) = True"
    by blast
  moreover from T have
    "\<not> recordingSaving (saveRecording_finish
        (fst (saveRecording_start (example_call\<lparr>recordedChunks := [[1, 2, 3]]\<rparr>) 6000)) HttpError)"
    by blast
  ultimately show ?thesis
    using s' by simp
qed

section \<open>Hold and resume\<close>

lemma holdCall_rejected_flag:
  "currentSession c = Some s \<Longrightarrow> holdCall_start c = (c1, None) \<Longrightarrow>
     map_option isOnHold (currentSession (fst (holdCall c (InviteRejected e)))) = Some (Some False) \<and>
     map_option isOnHold (currentSession (fst (holdCall_onReject c1))) = Some (Some False)"
  by (auto simp: holdCall_def holdCall_start_def holdCall_catch_def holdCall_onReject_def Let_def
      split: option.splits if_splits)

lemma resumeCall_rejected_flag:
  "currentSession c = Some s \<Longrightarrow> resumeCall_start c = (c1, None) \<Longrightarrow>
     map_option isOnHold (currentSession (fst (resumeCall c (InviteRejected e)))) = Some (Some True) \<and>
     map_option isOnHold (currentSession (fst (resumeCall_onReject c1))) = Some (Some True)"
  by (auto simp: resumeCall_def resumeCall_start_def resumeCall_catch_def resumeCall_onReject_def
      Let_def split: option.splits if_splits)

text \<open>
  C3 (a rejected hold or resume leaves the held flag as it was before the attempt)
  does not hold of \<open>resumeCall\<close>. The rejection and error paths of \<open>holdCall\<close>
  assign \<open>false\<close> and those of \<open>resumeCall\<close> assign \<open>true\<close>, and each throws an
  error (\<open>holdCall_rejected_flag\<close>, \<open>resumeCall_rejected_flag\<close>); that is the
  flag's earlier value only if the flag was set before. On a call that was never put
  on hold the session has no \<open>isOnHold\<close> property, the guard \<open>isOnHold === false\<close> does
  not hold, and the re-INVITE is sent. When it is rejected (through \<open>onReject\<close>, or
  through the \<open>catch\<close> block when the promise rejects) the flag is assigned \<open>true\<close>:
  the call, which was not on hold before the attempt, is marked as held.
\<close>

theorem resumeCall_rejected_marks_held:
  "map_option isOnHold (currentSession example_call) = Some None \<and>
   resumeCall_start example_call =
     (example_call\<lparr>currentSession :=
          Some (example_session\<lparr>isOnHold := Some False, reInviteHold := Some (Some False)\<rparr>),
        trace := [SipReInvite (Some False)]\<rparr>, None) \<and>
   map_option isOnHold
     (currentSession (fst (resumeCall_onReject (fst (resumeCall_start example_call)))))
     = Some (Some True) \<and>
   snd (resumeCall_onReject (fst (resumeCall_start example_call)))
     = Throw (Error ''Failed to take call off hold'') \<and>
   map_option isOnHold
     (currentSession (fst (resumeCall example_call (InviteRejected (Error ''Request Timeout'')))))
     = Some (Some True)"
  by (simp add: resumeCall_def resumeCall_start_def resumeCall_catch_def resumeCall_onReject_def
      example_call_def example_session_def constructor_def Let_def)

lemma set_enabled_apply:
  "set_enabled v j ts i = (if i = j then (ts i)\<lparr>enabled := v\<rparr> else ts i)"
  by (simp add: set_enabled_def)

lemma receivers_forEach_at:
  "receivers_forEach v rs ts i = (if Some i \<in> set rs then (ts i)\<lparr>enabled := v\<rparr> else ts i)"
proof (induction rs arbitrary: ts)
  case Nil
  show ?case by simp
next
  case (Cons r rs)
  show ?case
  proof (cases r)
    case None
    then show ?thesis using Cons.IH [of ts] by simp
  next
    case (Some j)
    have "receivers_forEach v (r # rs) ts i = receivers_forEach v rs (set_enabled v j ts) i"
      using Some by simp
    also have "\<dots> = (if Some i \<in> set rs then (set_enabled v j ts i)\<lparr>enabled := v\<rparr>
                      else set_enabled v j ts i)"
      by (rule Cons.IH)
    also have "\<dots> = (if Some i \<in> set (r # rs) then (ts i)\<lparr>enabled := v\<rparr> else ts i)"
      using Some by (auto simp: set_enabled_apply)
    finally show ?thesis .
  qed
qed

lemma senders_forEach_modulo:
  "senders_forEach v d ss ts = (ts', err) \<Longrightarrow> (ts' i)\<lparr>enabled := e\<rparr> = (ts i)\<lparr>enabled := e\<rparr>"
proof (induction v d ss ts arbitrary: ts' err rule: senders_forEach.induct)
  case (3 v d j ss ts)
  then show ?case
    by (fastforce simp: set_enabled_apply Let_def split: track_kind.splits if_splits option.splits)
qed simp_all

lemma senders_forEach_keeps:
  "senders_forEach v d ss ts = (ts', err) \<Longrightarrow> enabled (ts i) = v \<Longrightarrow> enabled (ts' i) = v"
proof (induction v d ss ts arbitrary: ts' err rule: senders_forEach.induct)
  case (3 v d j ss ts)
  then show ?case
    by (fastforce simp: set_enabled_apply Let_def split: track_kind.splits if_splits option.splits)
qed simp_all

lemma senders_forEach_sets:
  "senders_forEach v d ss ts = (ts', None) \<Longrightarrow> Some i \<in> set ss \<Longrightarrow> enabled (ts' i) = v"
proof (induction v d ss ts arbitrary: ts' rule: senders_forEach.induct)
  case (3 v d j ss ts)
  then show ?case
    by (fastforce simp: set_enabled_apply Let_def split: track_kind.splits if_splits option.splits
        dest: senders_forEach_keeps)
qed simp_all

lemma senders_forEach_no_error:
  "d \<noteq> None \<Longrightarrow> snd (senders_forEach v d ss ts) = None"
  by (induction v d ss ts rule: senders_forEach.induct)
    (auto simp: Let_def split: track_kind.splits option.splits)

lemma peer_tracks_forEach_frame:
  "peer_tracks_forEach v c = (c', err) \<Longrightarrow> c' = c\<lparr>tracks := tracks c'\<rparr>"
  by (auto simp: peer_tracks_forEach_def split: option.splits prod.splits)

lemma peer_tracks_forEach_modulo:
  "peer_tracks_forEach v c = (c', err) \<Longrightarrow>
     (tracks c' i)\<lparr>enabled := e\<rparr> = (tracks c i)\<lparr>enabled := e\<rparr>"
  by (auto simp: peer_tracks_forEach_def receivers_forEach_at
      split: option.splits prod.splits dest!: senders_forEach_modulo [where i = i and e = e])

lemma peer_tracks_forEach_sets:
  assumes "peer_tracks_forEach v c = (c', None)"
    and "currentSession c = Some s" and "sessionDescriptionHandler s = Some sdh"
    and "peerConnection sdh = Some pc"
    and "Some i \<in> set (receivers pc) \<or> Some i \<in> set (senders pc)"
  shows "enabled (tracks c' i) = v"
proof -
  obtain ts where run: "senders_forEach v (data s) (senders pc)
      (receivers_forEach v (receivers pc) (tracks c)) = (ts, None)" and c': "tracks c' = ts"
    using assms(1-4) by (auto simp: peer_tracks_forEach_def split: prod.splits)
  from assms(5) show ?thesis
  proof
    assume "Some i \<in> set (receivers pc)"
    then have "enabled (receivers_forEach v (receivers pc) (tracks c) i) = v"
      by (simp add: receivers_forEach_at)
    with run show ?thesis unfolding c' by (rule senders_forEach_keeps)
  next
    assume "Some i \<in> set (senders pc)"
    with run show ?thesis unfolding c' by (rule senders_forEach_sets)
  qed
qed

lemma peer_tracks_forEach_no_error:
  "currentSession c = Some s \<Longrightarrow> data s \<noteq> None \<Longrightarrow> snd (peer_tracks_forEach v c) = None"
  using senders_forEach_no_error
  by (auto simp: peer_tracks_forEach_def split: option.splits prod.splits) (metis snd_conv)

lemma track_enabled_eq:
  "enabled t = v \<Longrightarrow> t\<lparr>enabled := v\<rparr> = t'\<lparr>enabled := v\<rparr> \<Longrightarrow> t = t'\<lparr>enabled := v\<rparr>"
  by (cases t, cases t') simp

lemma holdCall_start_sent:
  assumes "holdCall_start c = (c1, None)" and "currentSession c = Some s"
  shows "c1 = c\<lparr>currentSession := Some (s\<lparr>isOnHold := Some True, reInviteHold := Some (Some True)\<rparr>),
                trace := trace c @ [SipReInvite (Some True)]\<rparr>"
  using assms
  by (auto simp: holdCall_start_def holdCall_catch_def Let_def split: option.splits if_splits)

lemma resumeCall_held:
  assumes "currentSession c = Some s" and "isOnHold s = Some True" and "reInviteHold s = Some h"
  shows "resumeCall c InviteResolved =
     (c\<lparr>currentSession := Some (s\<lparr>isOnHold := Some False, reInviteHold := Some (Some False)\<rparr>),
        trace := trace c @ [SipReInvite (Some False)]\<rparr>, Return True)"
  using assms by (simp add: resumeCall_def resumeCall_start_def Let_def)

lemma accept_tracks:
  assumes run: "peer_tracks_forEach v c = (c', None)"
    and cur: "currentSession c = Some s" and sdh: "sessionDescriptionHandler s = Some sdh"
    and pc: "peerConnection sdh = Some pc"
    and i: "Some i \<in> set (receivers pc) \<or> Some i \<in> set (senders pc)"
  shows "tracks c' i = (tracks c i)\<lparr>enabled := v\<rparr>"
proof (rule track_enabled_eq)
  show "enabled (tracks c' i) = v"
    using run cur sdh pc i by (rule peer_tracks_forEach_sets)
  show "(tracks c' i)\<lparr>enabled := v\<rparr> = (tracks c i)\<lparr>enabled := v\<rparr>"
    using run by (rule peer_tracks_forEach_modulo)
qed

text \<open>
  C4 as stated does not hold: the resume does not reinstate the configuration before
  the hold when a track was disabled then. With the microphone muted before the hold
  (\<open>muteMicrophone\<close> has disabled the sender's track), the track is enabled after the
  accepted resume: the call is no longer muted.
\<close>

theorem hold_resume_unmutes_counterexample:
  "snd (muteMicrophone example_call) = True \<and>
   enabled (tracks muted_call 0) = False \<and>
   snd (holdCall_start muted_call) = None \<and>
   snd (holdCall_onAccept (fst (holdCall_start muted_call)) 10) = Return () \<and>
   enabled (tracks (hold_then_resume muted_call 10 20) 0) = True \<and>
   tracks (hold_then_resume muted_call 10 20) 0 \<noteq> tracks muted_call 0"
  by (simp add: muted_call_def muteMicrophone_def hold_then_resume_def holdCall_start_def
      holdCall_onAccept_def resumeCall_def resumeCall_start_def resumeCall_onAccept_def
      peer_tracks_forEach_def log_hold_def example_call_def example_session_def constructor_def
      set_enabled_def Let_def)

text \<open>
  C4, amended. A hold whose re-INVITE was sent and accepted, followed by a resume whose
  re-INVITE is accepted: \<open>resumeCall\<close> returns \<open>true\<close>, its \<open>onAccept\<close> callback runs
  to the end, the flag is \<open>false\<close>, the session has the handler and peer connection it
  had before the hold (neither method replaces a sender's track, so no other track
  has become the outbound source), and every track of a receiver or a sender is the
  track it was before the hold, enabled. That is the configuration before the hold for
  every track that was enabled then; a track that was disabled before the hold is
  enabled after the resume.
\<close>

theorem hold_resume_round_trip:
  assumes cur: "currentSession c = Some s"
    and sdh: "sessionDescriptionHandler s = Some sdh"
    and pc: "peerConnection sdh = Some pc"
    and hold: "holdCall_start c = (c1, None)"
    and acc: "holdCall_onAccept c1 t1 = (c2, Return ())"
  shows "let c3 = fst (resumeCall c2 InviteResolved);
             c4 = fst (resumeCall_onAccept c3 t2)
         in snd (resumeCall c2 InviteResolved) = Return True \<and>
            snd (resumeCall_onAccept c3 t2) = Return () \<and>
            map_option isOnHold (currentSession c4) = Some (Some False) \<and>
            map_option sessionDescriptionHandler (currentSession c4) = Some (Some sdh) \<and>
            (\<forall>i. Some i \<in> set (receivers pc) \<or> Some i \<in> set (senders pc) \<longrightarrow>
                 tracks c4 i = (tracks c i)\<lparr>enabled := True\<rparr> \<and>
                 (enabled (tracks c i) \<longrightarrow> tracks c4 i = tracks c i))"
proof -
  define s1 where "s1 = s\<lparr>isOnHold := Some True, reInviteHold := Some (Some True)\<rparr>"
  have c1: "c1 = c\<lparr>currentSession := Some s1, trace := trace c @ [SipReInvite (Some True)]\<rparr>"
    using holdCall_start_sent [OF hold cur] by (simp add: s1_def)
  obtain c1' where p1: "peer_tracks_forEach False c1 = (c1', None)"
    and l1: "log_hold True ''hold'' t1 c1' = (c2, Return ())"
    using acc by (auto simp: holdCall_onAccept_def split: prod.splits option.splits)
  have f1: "c1' = c1\<lparr>tracks := tracks c1'\<rparr>"
    using p1 by (rule peer_tracks_forEach_frame)
  have cur1: "currentSession c1 = Some s1" by (simp add: c1)
  have cur1': "currentSession c1' = Some s1" by (subst f1) (simp add: cur1)
  obtain d2 where c2: "c2 = c1'\<lparr>currentSession := Some (s1\<lparr>isOnHold := Some True, data := Some d2\<rparr>)\<rparr>"
    using l1 cur1' by (auto simp: log_hold_def Let_def)
  define s2 where "s2 = s1\<lparr>isOnHold := Some True, data := Some d2\<rparr>"
  define s3 where "s3 = s2\<lparr>isOnHold := Some False, reInviteHold := Some (Some False)\<rparr>"
  define c3 where "c3 = c2\<lparr>currentSession := Some s3, trace := trace c2 @ [SipReInvite (Some False)]\<rparr>"
  have r3: "resumeCall c2 InviteResolved = (c3, Return True)"
    unfolding c3_def s3_def
    by (rule resumeCall_held [where h = "Some True"]) (simp_all add: c2 s2_def s1_def)
  have cur3: "currentSession c3 = Some s3" by (simp add: c3_def)
  have sdh3: "sessionDescriptionHandler s3 = Some sdh"
    by (simp add: s3_def s2_def s1_def sdh)
  have "snd (peer_tracks_forEach True c3) = None"
    using cur3 by (rule peer_tracks_forEach_no_error) (simp add: s3_def s2_def)
  then obtain c3' where p3: "peer_tracks_forEach True c3 = (c3', None)"
    by (cases "peer_tracks_forEach True c3") simp
  have f3: "c3' = c3\<lparr>tracks := tracks c3'\<rparr>"
    using p3 by (rule peer_tracks_forEach_frame)
  have cur3': "currentSession c3' = Some s3" by (subst f3) (simp add: cur3)
  obtain c4 where r4: "resumeCall_onAccept c3 t2 = (c4, Return ())"
    and cur4: "map_option isOnHold (currentSession c4) = Some (Some False)"
    and sdh4: "map_option sessionDescriptionHandler (currentSession c4) = Some (Some sdh)"
    and t4: "tracks c4 = tracks c3'"
    using p3 cur3' sdh3 by (simp add: resumeCall_onAccept_def log_hold_def Let_def)
  have tr: "tracks c4 i = (tracks c i)\<lparr>enabled := True\<rparr>"
    if i: "Some i \<in> set (receivers pc) \<or> Some i \<in> set (senders pc)" for i
  proof -
    have "tracks c3' i = (tracks c3 i)\<lparr>enabled := True\<rparr>"
      using p3 cur3 sdh3 pc i by (rule accept_tracks)
    moreover have "tracks c3 = tracks c1'" by (simp add: c3_def c2)
    moreover have "tracks c1' i = (tracks c1 i)\<lparr>enabled := False\<rparr>"
      using p1 cur1 _ pc i by (rule accept_tracks) (simp add: s1_def sdh)
    moreover have "tracks c1 = tracks c" by (simp add: c1)
    ultimately show ?thesis by (simp add: t4)
  qed
  show ?thesis
    using r3 r4 cur4 sdh4 tr by (simp add: Let_def)
qed

theorem hold_resume_round_trip_witness:
  "snd (holdCall_start example_call) = None \<and>
   snd (holdCall_onAccept (fst (holdCall_start example_call)) 10) = Return () \<and>
   (let c2 = fst (holdCall_onAccept (fst (holdCall_start example_call)) 10);
        c3 = fst (resumeCall c2 InviteResolved);
        c4 = fst (resumeCall_onAccept c3 20)
    in snd (resumeCall c2 InviteResolved) = Return True \<and>
       snd (resumeCall_onAccept c3 20) = Return () \<and>
       map_option isOnHold (currentSession c4) = Some (Some False) \<and>
       tracks c4 0 = \<lparr>kind = AudioKind, enabled = True, IsMixedTrack = False\<rparr> \<and>
       tracks c4 1 = \<lparr>kind = AudioKind, enabled = True, IsMixedTrack = False\<rparr>)"
proof -
  have h': "snd (holdCall_start example_call) = None"
    by (simp add: holdCall_start_def example_call_def example_session_def constructor_def Let_def)
  have a': "snd (holdCall_onAccept (fst (holdCall_start example_call)) 10) = Return ()"
    by (simp add: holdCall_onAccept_def peer_tracks_forEach_def log_hold_def holdCall_start_def
        example_call_def example_session_def constructor_def set_enabled_def Let_def)
  have h: "holdCall_start example_call = (fst (holdCall_start example_call), None)"
    using h' by (metis prod.collapse)
  have a: "holdCall_onAccept (fst (holdCall_start example_call)) 10 =
      (fst (holdCall_onAccept (fst (holdCall_start example_call)) 10), Return ())"
    using a' by (metis prod.collapse)
  have c: "currentSession example_call = Some example_session"
    by (simp add: example_call_def)
  have s: "sessionDescriptionHandler example_session =
      Some \<lparr>peerConnection = Some \<lparr>receivers = [Some 1], senders = [Some 0]\<rparr>\<rparr>"
    by (simp add: example_session_def)
  have t: "tracks example_call = (\<lambda>_. \<lparr>kind = AudioKind, enabled = True, IsMixedTrack = False\<rparr>)"
    by (simp add: example_call_def constructor_def)
  have pc: "peerConnection \<lparr>peerConnection = Some \<lparr>receivers = [Some 1], senders = [Some 0]\<rparr>\<rparr> =
      Some \<lparr>receivers = [Some 1], senders = [Some 0]\<rparr>"
    by simp
  show ?thesis
    using hold_resume_round_trip [OF c s pc h a, of 20] h' a'
    by (simp add: Let_def t)
qed

section \<open>The end of a session\<close>

lemma client_of_with_client: "client_of (with_client w c) = c"
  by (simp add: client_of_def with_client_def)

lemma terminated_with_client: "terminated_sessions (with_client w c) = terminated_sessions w"
  by (simp add: with_client_def)

lemma stopRecording_frame:
  "currentSession (cl (stopRecording r now)) = currentSession (cl r) \<and>
   recordedChunks (cl (stopRecording r now)) = recordedChunks (cl r) \<and>
   ringbackTone (cl (stopRecording r now)) = ringbackTone (cl r) \<and>
   (mediaRecorder (cl (stopRecording r now)) = mediaRecorder (cl r) \<or>
    mediaRecorder (cl (stopRecording r now)) = Some Inactive) \<and>
   prefix (trace (cl r)) (trace (cl (stopRecording r now)))"
  by (auto simp: stopRecording_def saveRecording_start_def Let_def split: prod.splits if_splits)

lemma onCallTerminated_sessions:
  "terminated_sessions (onCallTerminated w s now) = terminated_sessions w @ [s]"
  by (simp add: onCallTerminated_def Let_def)

lemma onCallTerminated_current:
  "currentSession (client_of (onCallTerminated w s now)) = None"
  by (simp add: onCallTerminated_def client_of_def Let_def)




lemma onCallTerminated_trace:
  "prefix (trace (client_of w)) (trace (client_of (onCallTerminated w s now)))"
  using stopRecording_frame
    [of "(rec_world w)\<lparr>cl := stopAllTones ((cl (rec_world w))\<lparr>callEndTime := Some now\<rparr>)\<rparr>" now]
  by (simp add: onCallTerminated_def client_of_def Let_def stopAllTones_def)

lemma notify_terminated_sessions:
  "terminated_sessions (notify_terminated n w s now) = terminated_sessions w @ replicate n s"
  by (induction n arbitrary: w) (simp_all add: onCallTerminated_sessions replicate_append_same)

lemma notify_terminated_current:
  "0 < n \<Longrightarrow> currentSession (client_of (notify_terminated n w s now)) = None"
proof (induction n arbitrary: w)
  case 0
  then show ?case by simp
next
  case (Suc n)
  show ?case
  proof (cases n)
    case 0
    then show ?thesis by (simp add: onCallTerminated_current)
  next
    case (Suc m)
    then show ?thesis using Suc.IH [of "onCallTerminated w s now"] by simp
  qed
qed




lemma notify_terminated_trace:
  "prefix (trace (client_of w)) (trace (client_of (notify_terminated n w s now)))"
proof (induction n arbitrary: w)
  case 0
  then show ?case by simp
next
  case (Suc n)
  show ?case
    using Suc.IH [of "onCallTerminated w s now"] onCallTerminated_trace [of w s now]
    by (auto intro: prefix_order.trans)
qed


lemma listeners_pos: "0 < listeners d"
  by (cases d) (simp_all add: listeners_def)

section \<open>Rejected outbound calls\<close>









section \<open>Transfer\<close>

lemma replace_hash_no_hash: "CHR ''#'' \<notin> set (replace_hash ext)"
  by (induction ext) (auto simp: replace_hash_def)

lemma replace_hash_id: "CHR ''#'' \<notin> set ext \<Longrightarrow> replace_hash ext = ext"
  by (induction ext) (auto simp: replace_hash_def)

lemma replace_hash_append: "replace_hash (a @ b) = replace_hash a @ replace_hash b"
  by (simp add: replace_hash_def)

lemma replace_hash_hash: "replace_hash (CHR ''#'' # b) = ''%23'' @ replace_hash b"
  by (simp add: replace_hash_def)

lemma transferCall_established:
  assumes "currentSession c = Some s" and "state s = Established"
  shows "transferCall c (Some ext) now None =
     (c\<lparr>currentSession := Some (s\<lparr>data := Some ((case data s of None \<Rightarrow> empty_data | Some d \<Rightarrow> d)
          \<lparr>transfer := Some (transfers c @ [new_transfer Blind ext ''refer'' now])\<rparr>)\<rparr>),
        trace := trace c @ [SipRefer (''sip:'' @ replace_hash ext @ ''@'' @ config_host c)]\<rparr>,
      Return True)"
  using assms
  by (simp add: transferCall_def transfers_def empty_data_def Let_def split: option.splits)

text \<open>
  C6 as stated does not hold. A call on hold keeps the SIP state
  \<open>Established\<close> (\<open>holdCall\<close> and its \<open>onAccept\<close> only set \<open>isOnHold\<close>), and
  \<open>transferCall\<close> checks the state alone: on the call held by an accepted
  \<open>holdCall\<close> it appends the record, calls \<open>refer\<close> and returns \<open>true\<close>. Of the characters of the extension only \<open>#\<close> is replaced: a space, a
  semicolon and an at sign pass unchanged.
\<close>

theorem transferCall_held_counterexample:
  "map_option isOnHold (currentSession held_call) = Some (Some True) \<and>
   map_option state (currentSession held_call) = Some Established \<and>
   snd (transferCall held_call (Some ''2002'') 5 None) = Return True \<and>
   trace (fst (transferCall held_call (Some ''2002'') 5 None)) =
     [SipReInvite (Some True), SipRefer ''sip:2002@pbx''] \<and>
   transfers (fst (transferCall held_call (Some ''2002'') 5 None)) =
     [new_transfer Blind ''2002'' ''refer'' 5] \<and>
   replace_hash ''20 02;x@y'' = ''20 02;x@y''"
  by (simp add: held_call_def holdCall_start_def holdCall_onAccept_def peer_tracks_forEach_def
      log_hold_def transferCall_def transfers_def example_call_def example_session_def
      constructor_def replace_hash_def empty_data_def set_enabled_def Let_def)

text \<open>
  C6, amended. \<open>transferCall\<close> throws, leaving the client as it was and calling
  nothing, when no session is current or the current session's SIP state is not
  \<open>Established\<close>; the hold flag is not consulted, so a held call (whose SIP state is
  still \<open>Established\<close>) can be transferred. A missing extension (\<open>undefined\<close>) is a
  \<open>TypeError\<close> before any record is appended and before \<open>refer\<close> is called. For an
  extension that is a string the target passed to \<open>refer\<close> is \<open>sip:\<close>, the extension
  with every \<open>#\<close> replaced by \<open>%23\<close> and all other characters unchanged, \<open>@\<close>, and
  the configured host.
\<close>

theorem transferCall_validation:
  "(currentSession c = None \<longrightarrow>
      transferCall c extension now r = (c, Throw (Error ''No active call to transfer''))) \<and>
   (currentSession c = Some s \<and> state s \<noteq> Established \<longrightarrow>
      transferCall c extension now r = (c, Throw (Error ''Call must be established to transfer''))) \<and>
   (currentSession c = Some s \<and> state s = Established \<longrightarrow>
      snd (transferCall c None now r) = Throw TypeError \<and>
      trace (fst (transferCall c None now r)) = trace c \<and>
      transfers (fst (transferCall c None now r)) = transfers c) \<and>
   (currentSession c = Some s \<and> state s = Established \<longrightarrow>
      snd (transferCall c (Some ext) now None) = Return True \<and>
      trace (fst (transferCall c (Some ext) now r)) =
        trace c @ [SipRefer (''sip:'' @ replace_hash ext @ ''@'' @ config_host c)]) \<and>
   CHR ''#'' \<notin> set (replace_hash ext) \<and>
   replace_hash (a @ CHR ''#'' # b) = replace_hash a @ ''%23'' @ replace_hash b \<and>
   (CHR ''#'' \<notin> set ext \<longrightarrow> replace_hash ext = ext)"
  by (auto simp: transferCall_established replace_hash_no_hash replace_hash_id
      replace_hash_append replace_hash_hash)
    (auto simp: transferCall_def transfers_def empty_data_def Let_def split: option.splits)

theorem transferCall_validation_witness:
  "transferCall registered_client (Some ''2002'') 5 None =
     (registered_client, Throw (Error ''No active call to transfer'')) \<and>
   transferCall (example_call\<lparr>currentSession := Some (example_session\<lparr>state := Establishing\<rparr>)\<rparr>)
       (Some ''2002'') 5 None =
     (example_call\<lparr>currentSession := Some (example_session\<lparr>state := Establishing\<rparr>)\<rparr>,
      Throw (Error ''Call must be established to transfer'')) \<and>
   snd (transferCall example_call None 5 None) = Throw TypeError \<and>
   trace (fst (transferCall example_call None 5 None)) = [] \<and>
   snd (transferCall example_call (Some ''20#02'') 5 None) = Return True \<and>
   trace (fst (transferCall example_call (Some ''20#02'') 5 None)) = [SipRefer ''sip:20%2302@pbx''] \<and>
   replace_hash ''2002'' = ''2002''"
  using transferCall_validation [where c = registered_client and extension = "Some ''2002''"
      and now = 5]
    transferCall_validation [where c = "example_call\<lparr>currentSession :=
        Some (example_session\<lparr>state := Establishing\<rparr>)\<rparr>"
      and s = "example_session\<lparr>state := Establishing\<rparr>" and extension = "Some ''2002''" and now = 5]
    transferCall_validation [where c = example_call and s = example_session and now = 5
      and ext = "''20#02''"]
    transferCall_validation [where ext = "''2002''"]
  by (simp add: registered_client_def example_call_def example_session_def constructor_def
      replace_hash_def)

lemma transferCall_returns:
  assumes "transferCall c (Some ext) now None = (c1, Return True)"
  shows "\<exists>s. currentSession c = Some s \<and> state s = Established"
  using assms by (auto simp: transferCall_def Let_def split: option.splits if_splits)

lemma transfers_session: "currentSession c = Some s \<Longrightarrow> transfers c = session_transfers s"
  by (simp add: transfers_def session_transfers_def)

lemma with_client_twice: "with_client (with_client w a) b = with_client w b"
  by (simp add: with_client_def)

lemma session_bye_terminated:
  assumes "currentSession (client_of w) = Some s"
  shows "session_bye w d ByeTerminated now =
     (notify_terminated (listeners d)
        (with_client w ((client_of w)\<lparr>trace := trace (client_of w) @ [SipBye]\<rparr>))
        (s\<lparr>state := Terminated\<rparr>) now, Return ())"
  using assms by (simp add: session_bye_def Let_def)

lemma session_bye_returned:
  assumes "currentSession (client_of w) = Some s"
  shows "session_bye w d ByeReturned now =
     (with_client w ((client_of w)\<lparr>trace := trace (client_of w) @ [SipBye]\<rparr>), Return ())"
  using assms by (simp add: session_bye_def Let_def)

lemma blind_transfer_aux:
  assumes tc: "transferCall (client_of w) (Some ext) now None = (c1, Return True)"
  shows "transfers c1 = transfers (client_of w) @ [new_transfer Blind ext ''refer'' now] \<and>
    (let i = length (transfers c1) - 1;
         marked = (\<lambda>v. transfers (client_of w) @ [(new_transfer Blind ext ''refer'' now)
           \<lparr>accept := \<lparr>complete = Some v, accept_eventTime = Some t,
                       accept_disposition = phrase\<rparr>\<rparr>]);
         acc = transferCall_onAccept (with_client w c1) i phrase t d ByeTerminated;
         ret = transferCall_onAccept (with_client w c1) i phrase t d ByeReturned;
         rej = transferCall_onReject c1 i phrase t
     in snd acc = Return () \<and>
        currentSession (client_of (fst acc)) = None \<and>
        prefix (trace c1 @ [SipBye]) (trace (client_of (fst acc))) \<and>
        (\<exists>s. terminated_sessions (fst acc) = terminated_sessions w @ replicate (listeners d) s \<and>
             state s = Terminated \<and> session_transfers s = marked True) \<and>
        snd ret = Return () \<and>
        transfers (client_of (fst ret)) = marked True \<and>
        trace (client_of (fst ret)) = trace c1 @ [SipBye] \<and>
        snd rej = Return () \<and>
        transfers (fst rej) = marked False \<and>
        trace (fst rej) = trace c1 \<and>
        map_option (\<lambda>s. s\<lparr>data := None\<rparr>) (currentSession (fst rej)) =
          map_option (\<lambda>s. s\<lparr>data := None\<rparr>) (currentSession c1) \<and>
        (fst rej)\<lparr>currentSession := None\<rparr> = c1\<lparr>currentSession := None\<rparr>)"
proof -
  obtain s where cur: "currentSession (client_of w) = Some s" and est: "state s = Established"
    using transferCall_returns [OF tc] by blast
  define d0 where "d0 = (case data s of None \<Rightarrow> empty_data | Some d \<Rightarrow> d)"
  define old where "old = transfers (client_of w)"
  define rec where "rec = new_transfer Blind ext ''refer'' now"
  define i where "i = length old"
  define mk where "mk = (\<lambda>v. rec\<lparr>accept := \<lparr>complete = Some v, accept_eventTime = Some t,
      accept_disposition = phrase\<rparr>\<rparr>)"
  define sA where "sA = s\<lparr>data := Some (d0\<lparr>terminateby := Some ''us'', reasonCode := Some 202,
      reasonText := Some ''Transfer'', transfer := Some (old @ [mk True])\<rparr>)\<rparr>"
  have c1: "c1 = (client_of w)\<lparr>currentSession := Some (s\<lparr>data := Some (d0\<lparr>transfer := Some (old @ [rec])\<rparr>)\<rparr>),
        trace := trace (client_of w) @
          [SipRefer (''sip:'' @ replace_hash ext @ ''@'' @ config_host (client_of w))]\<rparr>"
    using tc transferCall_established [OF cur est, of ext now]
    by (simp add: d0_def old_def rec_def)
  have tr1: "transfers c1 = old @ [rec]" by (simp add: c1 transfers_def)
  have len: "length (transfers c1) - 1 = i" by (simp add: tr1 i_def)
  have asg: "transferCall_onAccept_assign c1 i phrase t = (c1\<lparr>currentSession := Some sA\<rparr>, Return ())"
    by (simp add: c1 transferCall_onAccept_assign_def set_accept_def i_def sA_def mk_def)
  define wB where "wB = with_client w ((c1\<lparr>currentSession := Some sA\<rparr>)
      \<lparr>trace := trace c1 @ [SipBye]\<rparr>)"
  have curA: "currentSession (client_of (with_client w (c1\<lparr>currentSession := Some sA\<rparr>))) = Some sA"
    by (simp add: client_of_with_client)
  have acc: "transferCall_onAccept (with_client w c1) i phrase t d ByeTerminated =
      (notify_terminated (listeners d) wB (sA\<lparr>state := Terminated\<rparr>) (int t), Return ())"
    using session_bye_terminated [OF curA, of d "int t"]
    by (simp add: transferCall_onAccept_def client_of_with_client with_client_twice asg wB_def)
  have ret: "transferCall_onAccept (with_client w c1) i phrase t d ByeReturned = (wB, Return ())"
    using session_bye_returned [OF curA, of d "int t"]
    by (simp add: transferCall_onAccept_def client_of_with_client with_client_twice asg wB_def)
  have wB: "client_of wB = (c1\<lparr>currentSession := Some sA\<rparr>)\<lparr>trace := trace c1 @ [SipBye]\<rparr> \<and>
      terminated_sessions wB = terminated_sessions w"
    by (simp add: wB_def client_of_with_client terminated_with_client)
  have a1: "currentSession (client_of (notify_terminated (listeners d) wB
      (sA\<lparr>state := Terminated\<rparr>) (int t))) = None"
    by (rule notify_terminated_current) (rule listeners_pos)
  have a2: "prefix (trace c1 @ [SipBye]) (trace (client_of (notify_terminated (listeners d) wB
      (sA\<lparr>state := Terminated\<rparr>) (int t))))"
    using notify_terminated_trace [of wB "listeners d" "sA\<lparr>state := Terminated\<rparr>" "int t"]
    by (simp add: wB)
  have a3: "terminated_sessions (notify_terminated (listeners d) wB
      (sA\<lparr>state := Terminated\<rparr>) (int t)) =
      terminated_sessions w @ replicate (listeners d) (sA\<lparr>state := Terminated\<rparr>) \<and>
      state (sA\<lparr>state := Terminated\<rparr>) = Terminated \<and>
      session_transfers (sA\<lparr>state := Terminated\<rparr>) = old @ [mk True]"
    by (simp add: notify_terminated_sessions wB sA_def session_transfers_def)
  have r1: "transfers (client_of wB) = old @ [mk True] \<and>
      trace (client_of wB) = trace c1 @ [SipBye]"
    by (simp add: wB transfers_def sA_def)
  have rej: "snd (transferCall_onReject c1 i phrase t) = Return () \<and>
      transfers (fst (transferCall_onReject c1 i phrase t)) = old @ [mk False] \<and>
      trace (fst (transferCall_onReject c1 i phrase t)) = trace c1 \<and>
      map_option (\<lambda>s. s\<lparr>data := None\<rparr>) (currentSession (fst (transferCall_onReject c1 i phrase t))) =
        map_option (\<lambda>s. s\<lparr>data := None\<rparr>) (currentSession c1) \<and>
      (fst (transferCall_onReject c1 i phrase t))\<lparr>currentSession := None\<rparr> =
        c1\<lparr>currentSession := None\<rparr>"
    by (simp add: c1 transferCall_onReject_def set_accept_def transfers_def i_def mk_def)
  have goal: "transfers c1 = old @ [rec] \<and>
    (let i = length (transfers c1) - 1;
         marked = (\<lambda>v. old @ [mk v]);
         acc = transferCall_onAccept (with_client w c1) i phrase t d ByeTerminated;
         ret = transferCall_onAccept (with_client w c1) i phrase t d ByeReturned;
         rej = transferCall_onReject c1 i phrase t
     in snd acc = Return () \<and>
        currentSession (client_of (fst acc)) = None \<and>
        prefix (trace c1 @ [SipBye]) (trace (client_of (fst acc))) \<and>
        (\<exists>s. terminated_sessions (fst acc) = terminated_sessions w @ replicate (listeners d) s \<and>
             state s = Terminated \<and> session_transfers s = marked True) \<and>
        snd ret = Return () \<and>
        transfers (client_of (fst ret)) = marked True \<and>
        trace (client_of (fst ret)) = trace c1 @ [SipBye] \<and>
        snd rej = Return () \<and>
        transfers (fst rej) = marked False \<and>
        trace (fst rej) = trace c1 \<and>
        map_option (\<lambda>s. s\<lparr>data := None\<rparr>) (currentSession (fst rej)) =
          map_option (\<lambda>s. s\<lparr>data := None\<rparr>) (currentSession c1) \<and>
        (fst rej)\<lparr>currentSession := None\<rparr> = c1\<lparr>currentSession := None\<rparr>)"
    unfolding Let_def len
    using a1 a2 a3 r1 rej by (auto simp: tr1 acc ret)
  then show ?thesis unfolding old_def rec_def mk_def .
qed

text \<open>
  C7. After a blind transfer that \<open>transferCall\<close> has issued, the record it appended
  is the last of the sequence and \<open>transferId\<close> is its index. When the REFER is
  accepted, \<open>onAccept\<close> runs to the end: that record has \<open>accept.complete = true\<close>
  with the response's reason phrase as disposition and the event time, and \<open>bye\<close> is
  called on the session. When \<open>bye\<close> ends the session, as SIP.js does for an
  established one, \<open>onCallTerminated\<close> has run for every listener before \<open>onAccept\<close>
  returns: no session is current any more, and the session that was ended is
  \<open>Terminated\<close> and carries the record as marked. When \<open>bye\<close> returns without
  ending the session, the session is still current with the record as marked. When
  the REFER is rejected, \<open>onReject\<close> sets \<open>accept.complete = false\<close> with
  disposition and event time, nothing is sent (no \<open>bye\<close>), and apart from the
  session's \<open>data\<close> the client and the session are what they were.
\<close>

theorem blind_transfer_disposition:
  assumes "transferCall (client_of w) (Some ext) now None = (c1, Return True)"
  shows "transfers c1 = transfers (client_of w) @ [new_transfer Blind ext ''refer'' now] \<and>
    (let i = length (transfers c1) - 1;
         marked = (\<lambda>v. transfers (client_of w) @ [(new_transfer Blind ext ''refer'' now)
           \<lparr>accept := \<lparr>complete = Some v, accept_eventTime = Some t,
                       accept_disposition = phrase\<rparr>\<rparr>]);
         acc = transferCall_onAccept (with_client w c1) i phrase t d ByeTerminated;
         ret = transferCall_onAccept (with_client w c1) i phrase t d ByeReturned;
         rej = transferCall_onReject c1 i phrase t
     in snd acc = Return () \<and>
        currentSession (client_of (fst acc)) = None \<and>
        prefix (trace c1 @ [SipBye]) (trace (client_of (fst acc))) \<and>
        (\<exists>s. terminated_sessions (fst acc) = terminated_sessions w @ replicate (listeners d) s \<and>
             state s = Terminated \<and> session_transfers s = marked True) \<and>
        snd ret = Return () \<and>
        transfers (client_of (fst ret)) = marked True \<and>
        trace (client_of (fst ret)) = trace c1 @ [SipBye] \<and>
        snd rej = Return () \<and>
        transfers (fst rej) = marked False \<and>
        trace (fst rej) = trace c1 \<and>
        map_option (\<lambda>s. s\<lparr>data := None\<rparr>) (currentSession (fst rej)) =
          map_option (\<lambda>s. s\<lparr>data := None\<rparr>) (currentSession c1) \<and>
        (fst rej)\<lparr>currentSession := None\<rparr> = c1\<lparr>currentSession := None\<rparr>)"
  using assms by (rule blind_transfer_aux)

theorem blind_transfer_disposition_witness:
  "snd (transferCall example_call (Some ''2002'') 5 None) = Return True \<and>
   transfers (fst (transferCall example_call (Some ''2002'') 5 None)) =
     [new_transfer Blind ''2002'' ''refer'' 5] \<and>
   currentSession (client_of (fst (transferCall_onAccept
       (with_client (call_world_of example_call)
          (fst (transferCall example_call (Some ''2002'') 5 None)))
       0 ''Accepted'' 9 Outgoing ByeTerminated))) = None \<and>
   map state (terminated_sessions (fst (transferCall_onAccept
       (with_client (call_world_of example_call)
          (fst (transferCall example_call (Some ''2002'') 5 None)))
       0 ''Accepted'' 9 Outgoing ByeTerminated))) = [Terminated, Terminated] \<and>
   map session_transfers (terminated_sessions (fst (transferCall_onAccept
       (with_client (call_world_of example_call)
          (fst (transferCall example_call (Some ''2002'') 5 None)))
       0 ''Accepted'' 9 Outgoing ByeTerminated))) =
     [[(new_transfer Blind ''2002'' ''refer'' 5)\<lparr>accept :=
         \<lparr>complete = Some True, accept_eventTime = Some 9, accept_disposition = ''Accepted''\<rparr>\<rparr>],
      [(new_transfer Blind ''2002'' ''refer'' 5)\<lparr>accept :=
         \<lparr>complete = Some True, accept_eventTime = Some 9, accept_disposition = ''Accepted''\<rparr>\<rparr>]] \<and>
   trace (client_of (fst (transferCall_onAccept
       (with_client (call_world_of example_call)
          (fst (transferCall example_call (Some ''2002'') 5 None)))
       0 ''Accepted'' 9 Outgoing ByeTerminated))) = [SipRefer ''sip:2002@pbx'', SipBye] \<and>
   transfers (fst (transferCall_onReject (fst (transferCall example_call (Some ''2002'') 5 None)) 0
       ''Forbidden'' 9)) =
     [(new_transfer Blind ''2002'' ''refer'' 5)\<lparr>accept :=
        \<lparr>complete = Some False, accept_eventTime = Some 9, accept_disposition = ''Forbidden''\<rparr>\<rparr>] \<and>
   trace (fst (transferCall_onReject (fst (transferCall example_call (Some ''2002'') 5 None)) 0
       ''Forbidden'' 9)) = [SipRefer ''sip:2002@pbx'']"
proof -
  define c1 where "c1 = fst (transferCall example_call (Some ''2002'') 5 None)"
  have r: "snd (transferCall example_call (Some ''2002'') 5 None) = Return True"
    by (simp add: transferCall_def example_call_def example_session_def Let_def)
  then have tc: "transferCall (client_of (call_world_of example_call)) (Some ''2002'') 5 None =
      (c1, Return True)"
    unfolding c1_def by (simp add: client_of_def call_world_of_def prod_eq_iff)
  have t0: "transfers (client_of (call_world_of example_call)) = []"
    by (simp add: transfers_def example_call_def example_session_def client_of_def
        call_world_of_def)
  have c1: "c1 = example_call\<lparr>currentSession := Some (example_session\<lparr>data := Some
      (empty_data\<lparr>transfer := Some [new_transfer Blind ''2002'' ''refer'' 5]\<rparr>)\<rparr>),
      trace := [SipRefer ''sip:2002@pbx'']\<rparr>"
    unfolding c1_def
    by (simp add: transferCall_def example_call_def example_session_def constructor_def
        replace_hash_def empty_data_def Let_def)
  have t1: "transfers c1 = [new_transfer Blind ''2002'' ''refer'' 5]"
    by (simp add: c1 transfers_def)
  have tr: "trace (client_of (fst (transferCall_onAccept (with_client (call_world_of example_call) c1)
      0 ''Accepted'' 9 Outgoing ByeTerminated))) = [SipRefer ''sip:2002@pbx'', SipBye]"
    by (simp add: c1 transferCall_onAccept_def transferCall_onAccept_assign_def set_accept_def
        session_bye_def listeners_def numeral_2_eq_2 onCallTerminated_def stopRecording_def
        stopAllTones_def with_client_def client_of_def call_world_of_def example_call_def
        example_session_def constructor_def empty_data_def Let_def)
  have rr: "trace (fst (transferCall_onReject c1 0 ''Forbidden'' 9)) = [SipRefer ''sip:2002@pbx'']"
    by (simp add: c1 transferCall_onReject_def set_accept_def empty_data_def)
  have two: "replicate (listeners Outgoing) x = [x, x]" for x :: session
    by (simp add: listeners_def numeral_2_eq_2)
  have ts0: "terminated_sessions (call_world_of example_call) = []"
    by (simp add: call_world_of_def)
  have rj: "transfers (fst (transferCall_onReject c1 0 ''Forbidden'' 9)) =
     [(new_transfer Blind ''2002'' ''refer'' 5)\<lparr>accept :=
        \<lparr>complete = Some False, accept_eventTime = Some 9, accept_disposition = ''Forbidden''\<rparr>\<rparr>]"
    using blind_transfer_disposition [OF tc, where phrase = "''Forbidden''" and t = 9 and d = Outgoing]
    by (simp add: Let_def t0 t1)
  show ?thesis
    using blind_transfer_disposition [OF tc, where phrase = "''Accepted''" and t = 9 and d = Outgoing] r
    unfolding c1_def [symmetric]
    by (auto simp: Let_def t0 t1 tr rr rj two ts0)
qed

lemma attendedTransfer_established:
  assumes "currentSession c = Some s" and "state s = Established"
  shows "transfers (fst (attendedTransfer c (Some ext) now e)) =
     transfers c @ [new_transfer Attended ext ''invite'' now]"
  using assms
  by (simp add: attendedTransfer_def transfers_def empty_data_def Let_def split: option.splits)

lemma transferCall_appends:
  assumes "currentSession c = Some s" and "state s = Established"
  shows "transfers (fst (transferCall c (Some ext) now r)) =
     transfers c @ [new_transfer Blind ext ''refer'' now]"
  using assms
  by (simp add: transferCall_def transfers_def empty_data_def Let_def split: option.splits)

lemma completeAttendedTransfer_keeps:
  "transfers (fst (completeAttendedTransfer c newSession r)) = transfers c"
  by (simp add: completeAttendedTransfer_def transfers_def split: option.splits)

lemma completeAttendedTransfer_index:
  "snd (completeAttendedTransfer c newSession r) = Return j \<Longrightarrow>
     j = int (length (transfers c)) - 1"
  by (auto simp: completeAttendedTransfer_def transfers_def split: option.splits)

lemma ex_update_id: "\<exists>r. xs = xs[i := r]"
  by (metis list_update_id)

lemma transferCall_onAccept_assign_updates:
  "\<exists>r. transfers (fst (transferCall_onAccept_assign c i phrase t)) = (transfers c)[i := r]"
  by (auto simp: transferCall_onAccept_assign_def set_accept_def transfers_def Let_def
      ex_update_id split: option.splits if_splits)

lemma transferCall_onReject_updates:
  "\<exists>r. transfers (fst (transferCall_onReject c i phrase t)) = (transfers c)[i := r]"
  by (auto simp: transferCall_onReject_def set_accept_def transfers_def Let_def ex_update_id
      split: option.splits if_splits)

lemma attendedTransfer_disposition_updates:
  "\<exists>r. transfers (fst (attendedTransfer_disposition c i disp t)) = (transfers c)[i := r]"
  by (auto simp: attendedTransfer_disposition_def transfers_def Let_def ex_update_id
      split: option.splits if_splits)

lemma completeAttendedTransfer_onAccept_assign_updates:
  "\<exists>r. transfers (fst (completeAttendedTransfer_onAccept_assign c (int i) phrase t)) =
     (transfers c)[i := r]"
  by (auto simp: completeAttendedTransfer_onAccept_assign_def set_accept_def transfers_def
      Let_def ex_update_id split: option.splits if_splits)

lemma completeAttendedTransfer_onReject_updates:
  "\<exists>r. transfers (fst (completeAttendedTransfer_onReject c (int i) phrase t)) =
     (transfers c)[i := r]"
  by (auto simp: completeAttendedTransfer_onReject_def set_accept_def transfers_def Let_def
      ex_update_id split: option.splits if_splits)

lemma completeAttendedTransfer_onAccept_assign_none:
  "j < 0 \<Longrightarrow> transfers (fst (completeAttendedTransfer_onAccept_assign c j phrase t)) = transfers c"
  by (auto simp: completeAttendedTransfer_onAccept_assign_def transfers_def Let_def
      split: option.splits)

lemma completeAttendedTransfer_onReject_none:
  "j < 0 \<Longrightarrow> transfers (fst (completeAttendedTransfer_onReject c j phrase t)) = transfers c"
  by (auto simp: completeAttendedTransfer_onReject_def transfers_def Let_def
      split: option.splits)

text \<open>
  The sessions that a step from \<open>w\<close> to \<open>w'\<close> leaves: the one that is current in
  \<open>w'\<close>, and those that were ended in the step. After \<open>bye\<close> each of them carries the
  sequence that the current session had before.
\<close>

lemma session_bye_log:
  assumes "currentSession (client_of (fst (session_bye w d b now))) = Some s' \<or>
     s' \<in> set (drop (length (terminated_sessions w))
        (terminated_sessions (fst (session_bye w d b now))))"
  shows "session_transfers s' = transfers (client_of w)"
proof (cases "currentSession (client_of w)")
  case None
  then show ?thesis using assms by (simp add: session_bye_def)
next
  case (Some s)
  define w1 where "w1 = with_client w ((client_of w)\<lparr>trace := trace (client_of w) @ [SipBye]\<rparr>)"
  have w1: "currentSession (client_of w1) = Some s \<and> terminated_sessions w1 = terminated_sessions w"
    by (simp add: w1_def client_of_with_client terminated_with_client Some)
  show ?thesis
  proof (cases b)
    case ByeTerminated
    have res: "fst (session_bye w d b now) =
        notify_terminated (listeners d) w1 (s\<lparr>state := Terminated\<rparr>) now"
      by (simp add: session_bye_def Some ByeTerminated Let_def w1_def)
    have "currentSession (client_of (notify_terminated (listeners d) w1
        (s\<lparr>state := Terminated\<rparr>) now)) = None"
      by (rule notify_terminated_current) (rule listeners_pos)
    then have "s' \<in> set (replicate (listeners d) (s\<lparr>state := Terminated\<rparr>))"
      using assms by (simp add: res notify_terminated_sessions w1)
    then have "s' = s\<lparr>state := Terminated\<rparr>" by simp
    then show ?thesis by (simp add: session_transfers_def transfers_def Some)
  next
    case ByeReturned
    have "fst (session_bye w d b now) = w1"
      by (simp add: session_bye_def Some ByeReturned Let_def w1_def)
    then show ?thesis
      using assms w1 by (simp add: transfers_def session_transfers_def Some)
  next
    case (ByeThrew e)
    have "fst (session_bye w d b now) = w1"
      by (simp add: session_bye_def Some ByeThrew Let_def w1_def)
    then show ?thesis
      using assms w1 by (simp add: transfers_def session_transfers_def Some)
  qed
qed

lemma transferCall_onAccept_log:
  "\<exists>r. \<forall>s'. currentSession (client_of (fst (transferCall_onAccept w i phrase t d b))) = Some s' \<or>
        s' \<in> set (drop (length (terminated_sessions w))
          (terminated_sessions (fst (transferCall_onAccept w i phrase t d b)))) \<longrightarrow>
        session_transfers s' = (transfers (client_of w))[i := r]"
proof -
  obtain r where r: "transfers (fst (transferCall_onAccept_assign (client_of w) i phrase t)) =
      (transfers (client_of w))[i := r]"
    using transferCall_onAccept_assign_updates by blast
  obtain c1 res where asg: "transferCall_onAccept_assign (client_of w) i phrase t = (c1, res)"
    by (cases "transferCall_onAccept_assign (client_of w) i phrase t")
  have c1: "transfers c1 = (transfers (client_of w))[i := r]" using r asg by simp
  have "\<forall>s'. currentSession (client_of (fst (transferCall_onAccept w i phrase t d b))) = Some s' \<or>
        s' \<in> set (drop (length (terminated_sessions w))
          (terminated_sessions (fst (transferCall_onAccept w i phrase t d b)))) \<longrightarrow>
        session_transfers s' = (transfers (client_of w))[i := r]"
  proof (cases res)
    case (Throw e)
    then show ?thesis
      using c1
      by (auto simp: transferCall_onAccept_def asg client_of_with_client terminated_with_client
          transfers_session)
  next
    case (Return u)
    have res: "fst (transferCall_onAccept w i phrase t d b) =
        fst (session_bye (with_client w c1) d b (int t))"
      by (simp add: transferCall_onAccept_def asg Return)
    show ?thesis
      using session_bye_log [of "with_client w c1" d b "int t"] c1
      by (simp add: res client_of_with_client terminated_with_client)
  qed
  then show ?thesis by blast
qed

lemma completeAttendedTransfer_onAccept_log:
  "\<exists>r. \<forall>s'. currentSession (client_of (fst (completeAttendedTransfer_onAccept w (int i) phrase t d b)))
           = Some s' \<or>
        s' \<in> set (drop (length (terminated_sessions w))
          (terminated_sessions (fst (completeAttendedTransfer_onAccept w (int i) phrase t d b)))) \<longrightarrow>
        session_transfers s' = (transfers (client_of w))[i := r]"
proof -
  obtain r where r: "transfers (fst (completeAttendedTransfer_onAccept_assign (client_of w) (int i)
      phrase t)) = (transfers (client_of w))[i := r]"
    using completeAttendedTransfer_onAccept_assign_updates by blast
  obtain c1 res where asg:
    "completeAttendedTransfer_onAccept_assign (client_of w) (int i) phrase t = (c1, res)"
    by (cases "completeAttendedTransfer_onAccept_assign (client_of w) (int i) phrase t")
  have c1: "transfers c1 = (transfers (client_of w))[i := r]" using r asg by simp
  have "\<forall>s'. currentSession (client_of (fst (completeAttendedTransfer_onAccept w (int i) phrase t d b)))
           = Some s' \<or>
        s' \<in> set (drop (length (terminated_sessions w))
          (terminated_sessions (fst (completeAttendedTransfer_onAccept w (int i) phrase t d b)))) \<longrightarrow>
        session_transfers s' = (transfers (client_of w))[i := r]"
  proof (cases res)
    case (Throw e)
    then show ?thesis
      using c1
      by (auto simp: completeAttendedTransfer_onAccept_def asg client_of_with_client
          terminated_with_client transfers_session)
  next
    case (Return u)
    have res: "fst (completeAttendedTransfer_onAccept w (int i) phrase t d b) =
        fst (session_bye (with_client w c1) d b (int t))"
      by (simp add: completeAttendedTransfer_onAccept_def asg Return)
    show ?thesis
      using session_bye_log [of "with_client w c1" d b "int t"] c1
      by (simp add: res client_of_with_client terminated_with_client)
  qed
  then show ?thesis by blast
qed

lemma completeAttendedTransfer_onAccept_none:
  assumes "currentSession (client_of (fst (completeAttendedTransfer_onAccept w (- 1) phrase t d b)))
       = Some s' \<or>
     s' \<in> set (drop (length (terminated_sessions w))
       (terminated_sessions (fst (completeAttendedTransfer_onAccept w (- 1) phrase t d b))))"
  shows "session_transfers s' = transfers (client_of w)"
proof -
  have "snd (completeAttendedTransfer_onAccept_assign (client_of w) (- 1) phrase t) =
      Throw TypeError"
    by (simp add: completeAttendedTransfer_onAccept_assign_def Let_def split: option.splits)
  then obtain c1 where asg: "completeAttendedTransfer_onAccept_assign (client_of w) (- 1) phrase t =
      (c1, Throw TypeError)"
    by (metis prod.collapse)
  have c1: "transfers c1 = transfers (client_of w)"
    using completeAttendedTransfer_onAccept_assign_none [of "- 1" "client_of w" phrase t]
    by (simp add: asg)
  show ?thesis
    using assms c1
    by (auto simp: completeAttendedTransfer_onAccept_def asg client_of_with_client
        terminated_with_client transfers_session)
qed

text \<open>
  C8 as stated does not hold: records are mutated in place. The
  \<open>onReject\<close> callback of a blind transfer changes the record that \<open>transferCall\<close>
  appended for it.
\<close>

theorem transfer_record_mutated_counterexample:
  "transfers (fst (transferCall example_call (Some ''2002'') 5 None)) =
     [new_transfer Blind ''2002'' ''refer'' 5] \<and>
   transfers (fst (transferCall_onReject (fst (transferCall example_call (Some ''2002'') 5 None))
        0 ''Forbidden'' 6)) =
     [(new_transfer Blind ''2002'' ''refer'' 5)\<lparr>accept :=
        \<lparr>complete = Some False, accept_eventTime = Some 6, accept_disposition = ''Forbidden''\<rparr>\<rparr>] \<and>
   transfers (fst (transferCall_onReject (fst (transferCall example_call (Some ''2002'') 5 None))
        0 ''Forbidden'' 6)) \<noteq> transfers (fst (transferCall example_call (Some ''2002'') 5 None))"
  by (simp add: transferCall_def transferCall_onReject_def set_accept_def transfers_def
      example_call_def example_session_def constructor_def empty_data_def new_transfer_def Let_def)

text \<open>
  C8, amended. The transfer sequence of a session only grows at its end and keeps its
  order. On an established session every transfer attempt, blind or attended, appends
  exactly one record after the records already there, which stay as they are;
  \<open>completeAttendedTransfer\<close> appends none, and the \<open>transferId\<close> of its callbacks is
  the index of the record that is last when it is called. Records are updated in
  place: a callback of an attempt (\<open>onAccept\<close> and \<open>onReject\<close> of the REFER of
  \<open>transferCall\<close> or of \<open>completeAttendedTransfer\<close>; \<open>onTrying\<close>, \<open>onProgress\<close>,
  \<open>onAccept\<close>, \<open>onReject\<close> and \<open>onBye\<close> of the consultation call) updates the one
  record at its \<open>transferId\<close> in the sequence of the session that is current when it
  runs; it changes no other record and never the length or the order of the sequence,
  and with \<open>transferId\<close> \<open>-1\<close> it changes no record. The \<open>bye\<close> that ends \<open>onAccept\<close>
  leaves the sequence as it is, on the session that stays current as on the session
  that it ends.
\<close>

theorem transfer_log_append_then_update:
  "(currentSession c = Some s \<and> state s = Established \<longrightarrow>
      transfers (fst (transferCall c (Some ext) now r)) =
        transfers c @ [new_transfer Blind ext ''refer'' now] \<and>
      transfers (fst (attendedTransfer c (Some ext) now e)) =
        transfers c @ [new_transfer Attended ext ''invite'' now]) \<and>
   transfers (fst (completeAttendedTransfer c newSession r)) = transfers c \<and>
   (snd (completeAttendedTransfer c newSession r) = Return j \<longrightarrow>
      j = int (length (transfers c)) - 1) \<and>
   (\<exists>x. transfers (fst (transferCall_onAccept_assign c i phrase t)) = (transfers c)[i := x]) \<and>
   (\<exists>x. transfers (fst (transferCall_onReject c i phrase t)) = (transfers c)[i := x]) \<and>
   (\<exists>x. transfers (fst (attendedTransfer_disposition c i disp t)) = (transfers c)[i := x]) \<and>
   (\<exists>x. transfers (fst (completeAttendedTransfer_onAccept_assign c (int i) phrase t)) =
      (transfers c)[i := x]) \<and>
   (\<exists>x. transfers (fst (completeAttendedTransfer_onReject c (int i) phrase t)) =
      (transfers c)[i := x]) \<and>
   transfers (fst (completeAttendedTransfer_onAccept_assign c (- 1) phrase t)) = transfers c \<and>
   transfers (fst (completeAttendedTransfer_onReject c (- 1) phrase t)) = transfers c \<and>
   (\<exists>x. \<forall>s'. currentSession (client_of (fst (transferCall_onAccept w i phrase t d b))) = Some s' \<or>
        s' \<in> set (drop (length (terminated_sessions w))
          (terminated_sessions (fst (transferCall_onAccept w i phrase t d b)))) \<longrightarrow>
        session_transfers s' = (transfers (client_of w))[i := x]) \<and>
   (\<exists>x. \<forall>s'. currentSession (client_of (fst (completeAttendedTransfer_onAccept w (int i) phrase t d b)))
           = Some s' \<or>
        s' \<in> set (drop (length (terminated_sessions w))
          (terminated_sessions (fst (completeAttendedTransfer_onAccept w (int i) phrase t d b)))) \<longrightarrow>
        session_transfers s' = (transfers (client_of w))[i := x]) \<and>
   (\<forall>s'. currentSession (client_of (fst (completeAttendedTransfer_onAccept w (- 1) phrase t d b)))
           = Some s' \<or>
        s' \<in> set (drop (length (terminated_sessions w))
          (terminated_sessions (fst (completeAttendedTransfer_onAccept w (- 1) phrase t d b)))) \<longrightarrow>
        session_transfers s' = transfers (client_of w))"
proof -
  have app: "currentSession c = Some s \<and> state s = Established \<longrightarrow>
      transfers (fst (transferCall c (Some ext) now r)) =
        transfers c @ [new_transfer Blind ext ''refer'' now] \<and>
      transfers (fst (attendedTransfer c (Some ext) now e)) =
        transfers c @ [new_transfer Attended ext ''invite'' now]"
    by (simp add: transferCall_appends attendedTransfer_established)
  have idx: "snd (completeAttendedTransfer c newSession r) = Return j \<longrightarrow>
      j = int (length (transfers c)) - 1"
    using completeAttendedTransfer_index [of c newSession r j] by blast
  have none: "\<forall>s'. currentSession (client_of (fst (completeAttendedTransfer_onAccept w (- 1) phrase t d b)))
           = Some s' \<or>
        s' \<in> set (drop (length (terminated_sessions w))
          (terminated_sessions (fst (completeAttendedTransfer_onAccept w (- 1) phrase t d b)))) \<longrightarrow>
        session_transfers s' = transfers (client_of w)"
    using completeAttendedTransfer_onAccept_none [of w phrase t d b] by blast
  show ?thesis
    using app idx none
      completeAttendedTransfer_keeps [of c newSession r]
      transferCall_onAccept_assign_updates [of c i phrase t]
      transferCall_onReject_updates [of c i phrase t]
      attendedTransfer_disposition_updates [of c i disp t]
      completeAttendedTransfer_onAccept_assign_updates [of c i phrase t]
      completeAttendedTransfer_onReject_updates [of c i phrase t]
      completeAttendedTransfer_onAccept_assign_none [of "- 1" c phrase t]
      completeAttendedTransfer_onReject_none [of "- 1" c phrase t]
      transferCall_onAccept_log [of w i phrase t d b]
      completeAttendedTransfer_onAccept_log [of w i phrase t d b]
    apply (intro conjI)
                apply blast
               apply blast
              apply blast
             apply blast
            apply blast
           apply blast
          apply blast
         apply blast
        apply simp
       apply simp
      apply blast
     apply blast
    apply blast
    done
qed

lemma transferred_call_eq:
  "transferred_call = example_call
     \<lparr>currentSession := Some (example_session\<lparr>data := Some (empty_data
        \<lparr>transfer := Some [new_transfer Attended ''3003'' ''invite'' 5,
            (new_transfer Blind ''2002'' ''refer'' 6)\<lparr>accept :=
               \<lparr>complete = Some False, accept_eventTime = Some 7,
                  accept_disposition = ''Forbidden''\<rparr>\<rparr>],
          childsession := Some ''sip:3003@pbx''\<rparr>)\<rparr>),
      trace := [SipInvite ''sip:3003@pbx'', SipRefer ''sip:2002@pbx'']\<rparr>"
  by (simp add: transferred_call_def attendedTransfer_def transferCall_def
      transferCall_onReject_def set_accept_def example_call_def example_session_def
      constructor_def empty_data_def replace_hash_def new_transfer_def Let_def)

theorem transfer_log_append_then_update_witness:
  "map_option state (currentSession transferred_call) = Some Established \<and>
   transfers transferred_call =
     [new_transfer Attended ''3003'' ''invite'' 5,
      (new_transfer Blind ''2002'' ''refer'' 6)\<lparr>accept :=
         \<lparr>complete = Some False, accept_eventTime = Some 7, accept_disposition = ''Forbidden''\<rparr>\<rparr>] \<and>
   transfers (fst (transferCall transferred_call (Some ''4004'') 8 None)) =
     [new_transfer Attended ''3003'' ''invite'' 5,
      (new_transfer Blind ''2002'' ''refer'' 6)\<lparr>accept :=
         \<lparr>complete = Some False, accept_eventTime = Some 7, accept_disposition = ''Forbidden''\<rparr>\<rparr>,
      new_transfer Blind ''4004'' ''refer'' 8] \<and>
   transfers (fst (attendedTransfer transferred_call (Some ''4004'') 8 None)) =
     [new_transfer Attended ''3003'' ''invite'' 5,
      (new_transfer Blind ''2002'' ''refer'' 6)\<lparr>accept :=
         \<lparr>complete = Some False, accept_eventTime = Some 7, accept_disposition = ''Forbidden''\<rparr>\<rparr>,
      new_transfer Attended ''4004'' ''invite'' 8] \<and>
   transfers (fst (attendedTransfer_disposition transferred_call 0 ''accepted'' 8)) =
     [(new_transfer Attended ''3003'' ''invite'' 5)\<lparr>disposition := ''accepted'',
         dispositionTime := 8\<rparr>,
      (new_transfer Blind ''2002'' ''refer'' 6)\<lparr>accept :=
         \<lparr>complete = Some False, accept_eventTime = Some 7, accept_disposition = ''Forbidden''\<rparr>\<rparr>] \<and>
   completeAttendedTransfer transferred_call (Some ''sip:3003@pbx'') None =
     (transferred_call\<lparr>trace := trace transferred_call @ [SipReferSession ''sip:3003@pbx'']\<rparr>,
      Return 1) \<and>
   transfers (fst (completeAttendedTransfer_onReject transferred_call 1 ''Declined'' 9)) =
     [new_transfer Attended ''3003'' ''invite'' 5,
      (new_transfer Blind ''2002'' ''refer'' 6)\<lparr>accept :=
         \<lparr>complete = Some False, accept_eventTime = Some 9, accept_disposition = ''Declined''\<rparr>\<rparr>] \<and>
   currentSession (client_of (fst (completeAttendedTransfer_onAccept
       (call_world_of transferred_call) 1 ''Accepted'' 9 Outgoing ByeTerminated))) = None \<and>
   map session_transfers (terminated_sessions (fst (completeAttendedTransfer_onAccept
       (call_world_of transferred_call) 1 ''Accepted'' 9 Outgoing ByeTerminated))) =
     [[new_transfer Attended ''3003'' ''invite'' 5,
       (new_transfer Blind ''2002'' ''refer'' 6)\<lparr>accept :=
          \<lparr>complete = Some True, accept_eventTime = Some 9, accept_disposition = ''Accepted''\<rparr>\<rparr>],
      [new_transfer Attended ''3003'' ''invite'' 5,
       (new_transfer Blind ''2002'' ''refer'' 6)\<lparr>accept :=
          \<lparr>complete = Some True, accept_eventTime = Some 9, accept_disposition = ''Accepted''\<rparr>\<rparr>]]"
proof -
  define s0 where "s0 = example_session\<lparr>data := Some (empty_data
        \<lparr>transfer := Some [new_transfer Attended ''3003'' ''invite'' 5,
            (new_transfer Blind ''2002'' ''refer'' 6)\<lparr>accept :=
               \<lparr>complete = Some False, accept_eventTime = Some 7,
                  accept_disposition = ''Forbidden''\<rparr>\<rparr>],
          childsession := Some ''sip:3003@pbx''\<rparr>)\<rparr>"
  have cur: "currentSession transferred_call = Some s0 \<and> state s0 = Established"
    by (simp add: transferred_call_eq s0_def example_session_def)
  have log: "transfers transferred_call =
     [new_transfer Attended ''3003'' ''invite'' 5,
      (new_transfer Blind ''2002'' ''refer'' 6)\<lparr>accept :=
         \<lparr>complete = Some False, accept_eventTime = Some 7, accept_disposition = ''Forbidden''\<rparr>\<rparr>]"
    by (simp add: transferred_call_eq transfers_def)
  have disp: "transfers (fst (attendedTransfer_disposition transferred_call 0 ''accepted'' 8)) =
     [(new_transfer Attended ''3003'' ''invite'' 5)\<lparr>disposition := ''accepted'',
         dispositionTime := 8\<rparr>,
      (new_transfer Blind ''2002'' ''refer'' 6)\<lparr>accept :=
         \<lparr>complete = Some False, accept_eventTime = Some 7, accept_disposition = ''Forbidden''\<rparr>\<rparr>]"
    by (simp add: transferred_call_eq attendedTransfer_disposition_def transfers_def)
  have cat: "completeAttendedTransfer transferred_call (Some ''sip:3003@pbx'') None =
     (transferred_call\<lparr>trace := trace transferred_call @ [SipReferSession ''sip:3003@pbx'']\<rparr>,
      Return 1)"
    by (simp add: transferred_call_eq completeAttendedTransfer_def)
  have rej: "transfers (fst (completeAttendedTransfer_onReject transferred_call 1 ''Declined'' 9)) =
     [new_transfer Attended ''3003'' ''invite'' 5,
      (new_transfer Blind ''2002'' ''refer'' 6)\<lparr>accept :=
         \<lparr>complete = Some False, accept_eventTime = Some 9, accept_disposition = ''Declined''\<rparr>\<rparr>]"
    by (simp add: transferred_call_eq completeAttendedTransfer_onReject_def set_accept_def
        transfers_def)
  have acc: "currentSession (client_of (fst (completeAttendedTransfer_onAccept
       (call_world_of transferred_call) 1 ''Accepted'' 9 Outgoing ByeTerminated))) = None \<and>
   map session_transfers (terminated_sessions (fst (completeAttendedTransfer_onAccept
       (call_world_of transferred_call) 1 ''Accepted'' 9 Outgoing ByeTerminated))) =
     [[new_transfer Attended ''3003'' ''invite'' 5,
       (new_transfer Blind ''2002'' ''refer'' 6)\<lparr>accept :=
          \<lparr>complete = Some True, accept_eventTime = Some 9, accept_disposition = ''Accepted''\<rparr>\<rparr>],
      [new_transfer Attended ''3003'' ''invite'' 5,
       (new_transfer Blind ''2002'' ''refer'' 6)\<lparr>accept :=
          \<lparr>complete = Some True, accept_eventTime = Some 9, accept_disposition = ''Accepted''\<rparr>\<rparr>]]"
    by (simp add: transferred_call_eq completeAttendedTransfer_onAccept_def
        completeAttendedTransfer_onAccept_assign_def set_accept_def session_bye_def
        listeners_def numeral_2_eq_2 onCallTerminated_def stopRecording_def stopAllTones_def
        with_client_def client_of_def call_world_of_def example_call_def constructor_def
        session_transfers_def Let_def)
  show ?thesis
    using transfer_log_append_then_update [where c = transferred_call and s = s0
        and ext = "''4004''" and now = 8 and r = None and e = None
        and newSession = "Some ''sip:3003@pbx''" and j = 1 and i = 1 and phrase = "''Accepted''"
        and t = 9 and disp = "''accepted''" and w = "call_world_of transferred_call"
        and d = Outgoing and b = ByeTerminated]
      cur log disp cat rej acc
    by simp
qed

end
